theory Spec2Isabelle
  imports Main "HOL-Library.Word" "HOL-Library.AList"
begin

section \<open>The MachineHealthCheck controller\<close>

text \<open>
  A shallow embedding of \<^verbatim>\<open>controllers/machinehealthcheck_controller.go\<close>:
  the admission check \<^verbatim>\<open>isAllowedRemediation\<close>, one reconciliation pass
  (\<^verbatim>\<open>Reconcile\<close> and \<^verbatim>\<open>reconcile\<close>) and the mapping functions that turn
  change notifications into reconcile requests.

  Go's \<^verbatim>\<open>int32\<close> is \<open>32 word\<close> read with \<open>sint\<close>; Go's \<^verbatim>\<open>int\<close>, a time and a
  duration are \<open>int\<close>. A Go function returning \<^verbatim>\<open>(value, error)\<close> where one of the
  two is always nil returns \<open>error + value\<close>; \<^verbatim>\<open>Reconcile\<close> and \<^verbatim>\<open>reconcile\<close>
  return both a result and an optional error, as the source does. The objects a pass
  mutates through pointers are returned updated; the writes to the object store and the
  recorded events are traces in an explicit state.
\<close>

subsection \<open>Errors\<close>

datatype error =
    NotFound
  | Failure string
  | Errorf string "string list"
  | Wrapped string "string list" error
  | Aggregate "error list"

text \<open>\<^verbatim>\<open>apierrors.IsNotFound\<close>.\<close>

definition IsNotFound :: "error \<Rightarrow> bool" where
  "IsNotFound err = (err = NotFound)"

text \<open>\<^verbatim>\<open>kerrors.NewAggregate\<close>: nil entries are dropped, and no error at all is nil.\<close>

definition NewAggregate :: "error option list \<Rightarrow> error option" where
  "NewAggregate errs =
     (case List.map_filter id errs of [] \<Rightarrow> None | e # es \<Rightarrow> Some (Aggregate (e # es)))"

subsection \<open>Objects\<close>

type_synonym Time = int
type_synonym Duration = int
type_synonym NamespacedName = "string \<times> string"
type_synonym labels = "(string \<times> string) list"

datatype ConditionStatus = ConditionTrue | ConditionFalse | ConditionUnknown

datatype ConditionSeverity = ConditionSeverityError | ConditionSeverityWarning | ConditionSeverityInfo | ConditionSeverityNone

record Condition =
  Condition_Type :: string
  Condition_Status :: ConditionStatus
  Condition_Severity :: ConditionSeverity
  Condition_Reason :: string
  Condition_Message :: string

record Machine =
  Machine_Namespace :: string
  Machine_Name :: string
  Machine_Labels :: labels
  Machine_CreationTimestamp :: Time
  Machine_DeletionTimestamp :: "Time option"
  Machine_Spec_ClusterName :: string
  Machine_Status_NodeRef :: "string option"
  Machine_Status_Conditions :: "Condition list"

record NodeCondition =
  NodeCondition_Type :: string
  NodeCondition_Status :: ConditionStatus
  NodeCondition_LastTransitionTime :: Time

record Node =
  Node_Name :: string
  Node_Conditions :: "NodeCondition list"

record Cluster =
  Cluster_Namespace :: string
  Cluster_Name :: string
  Cluster_UID :: string
  Cluster_Spec_Paused :: bool

record OwnerReference =
  OwnerReference_APIVersion :: string
  OwnerReference_Kind :: string
  OwnerReference_Name :: string
  OwnerReference_UID :: string

record UnhealthyCondition =
  UnhealthyCondition_Type :: string
  UnhealthyCondition_Status :: ConditionStatus
  UnhealthyCondition_Timeout :: Duration

text \<open>\<^verbatim>\<open>intstr.IntOrString\<close>: an \<^verbatim>\<open>int32\<close> or a string.\<close>

datatype IntOrString = IntVal "32 word" | StrVal string

text \<open>
  \<^verbatim>\<open>clusterv1.MachineHealthCheck\<close> with the fields of its metadata, \<^verbatim>\<open>Spec\<close> and
  \<^verbatim>\<open>Status\<close> that the controller reads or writes. The label selector is the type
  parameter \<open>'sel\<close>: the controller only hands it to \<^verbatim>\<open>hasMatchingLabels\<close>.
\<close>

record 'sel MachineHealthCheck =
  MHC_Namespace :: string
  MHC_Name :: string
  MHC_Labels :: labels
  MHC_Annotations :: labels
  MHC_OwnerReferences :: "OwnerReference list"
  Spec_ClusterName :: string
  Spec_Selector :: 'sel
  Spec_UnhealthyConditions :: "UnhealthyCondition list"
  Spec_NodeStartupTimeout :: Duration
  Spec_MaxUnhealthy :: "IntOrString option"
  Status_ExpectedMachines :: "32 word"
  Status_CurrentHealthy :: "32 word"
  Status_Targets :: "string list"

text \<open>
  An object as the watches and the field index hand it over (\<^verbatim>\<open>runtime.Object\<close>):
  the functions that receive one check its kind.
\<close>

datatype 'sel Object =
    MachineObject Machine
  | NodeObject Node
  | ClusterObject Cluster
  | MachineHealthCheckObject "'sel MachineHealthCheck"

subsection \<open>Resolving an int-or-percent value\<close>

text \<open>
  Modelled from the spec: \<^verbatim>\<open>intstr.GetValueFromIntOrPercent\<close> belongs to the
  Kubernetes API machinery and is not part of the source file. The spec has
  \<^verbatim>\<open>maxUnhealthy\<close> "expressed as an absolute integer or a percentage of expected
  count", resolved against the expected count with a deterministic rounding (floor), and
  a value that "cannot be resolved" as malformed. The source asks for the rounding with the
  last argument \<^verbatim>\<open>false\<close> (do not round up). A string value is a decimal number
  with its percent signs removed; anything else is malformed. The result is computed on
  unbounded integers.
\<close>

definition digitVal :: "char \<Rightarrow> int option" where
  "digitVal c = (if c \<in> set ''0123456789'' then Some (int (of_char c) - 48) else None)"

fun parseDigits :: "string \<Rightarrow> int \<Rightarrow> int option" where
  "parseDigits [] acc = Some acc"
| "parseDigits (c # cs) acc =
     (case digitVal c of None \<Rightarrow> None | Some d \<Rightarrow> parseDigits cs (10 * acc + d))"

definition Atoi :: "string \<Rightarrow> int option" where
  "Atoi s =
     (let parsed =
        (case s of
           [] \<Rightarrow> None
         | c # cs \<Rightarrow>
             if c = CHR ''+'' then (if cs = [] then None else parseDigits cs 0)
             else if c = CHR ''-'' then (if cs = [] then None else map_option uminus (parseDigits cs 0))
             else parseDigits s 0)
      in case parsed of
           None \<Rightarrow> None
         | Some v \<Rightarrow> if - (2 ^ 63) \<le> v \<and> v < 2 ^ 63 then Some v else None)"

definition getIntOrPercentValue :: "IntOrString \<Rightarrow> error + (int \<times> bool)" where
  "getIntOrPercentValue intOrStr =
     (case intOrStr of
        IntVal v \<Rightarrow> Inr (sint v, False)
      | StrVal s \<Rightarrow>
          (case Atoi (filter (\<lambda>c. c \<noteq> CHR ''%'') s) of
             None \<Rightarrow> Inl (Failure ''invalid value'')
           | Some v \<Rightarrow> Inr (v, True)))"

definition GetValueFromIntOrPercent :: "IntOrString option \<Rightarrow> int \<Rightarrow> bool \<Rightarrow> error + int" where
  "GetValueFromIntOrPercent intOrPercent tot roundUp =
     (case intOrPercent of
        None \<Rightarrow> Inl (Failure ''nil value for IntOrString'')
      | Some v \<Rightarrow>
          (case getIntOrPercentValue v of
             Inl err \<Rightarrow> Inl (Wrapped ''invalid value for IntOrString'' [] err)
           | Inr (val, isPercent) \<Rightarrow>
               if isPercent then
                 (if roundUp then Inr (- ((- (val * tot)) div 100))
                  else Inr ((val * tot) div 100))
               else Inr val))"

subsection \<open>The admission check\<close>

text \<open>
  \<^verbatim>\<open>isAllowedRemediation\<close>: the subtraction is the \<^verbatim>\<open>int32\<close> one, widened to
  \<^verbatim>\<open>int\<close> for the comparison.
\<close>

definition isAllowedRemediation :: "'sel MachineHealthCheck \<Rightarrow> bool" where
  "isAllowedRemediation mhc =
     (if Spec_MaxUnhealthy mhc = None then True
      else
        (case GetValueFromIntOrPercent (Spec_MaxUnhealthy mhc) (sint (Status_ExpectedMachines mhc)) False of
           Inl err \<Rightarrow> False
         | Inr maxUnhealthy \<Rightarrow>
             (let unhealthy = Status_ExpectedMachines mhc - Status_CurrentHealthy mhc
              in sint unhealthy \<le> maxUnhealthy)))"


subsection \<open>Constants\<close>

text \<open>
  \<^verbatim>\<open>EventRemediationRestricted\<close> and \<^verbatim>\<open>machineNodeNameIndex\<close> are declared in the
  source file. The others are declared in the API package and beside the target code,
  outside the source file: they stand here with their own names as values, and nothing
  proved below depends on what the values are.
\<close>

definition machineNodeNameIndex :: string where
  "machineNodeNameIndex = ''status.nodeRef.name''"

definition EventRemediationRestricted :: string where
  "EventRemediationRestricted = ''RemediationRestricted''"

definition EventMachineMarkedUnhealthy :: string where
  "EventMachineMarkedUnhealthy = ''MachineMarkedUnhealthy''"

definition ClusterLabelName :: string where
  "ClusterLabelName = ''cluster.x-k8s.io/cluster-name''"

definition PausedAnnotation :: string where
  "PausedAnnotation = ''cluster.x-k8s.io/paused''"

definition GroupVersion_String :: string where
  "GroupVersion_String = ''cluster.x-k8s.io/v1alpha3''"

definition MachineOwnerRemediatedCondition :: string where
  "MachineOwnerRemediatedCondition = ''OwnerRemediated''"

definition WaitingForRemediation :: string where
  "WaitingForRemediation = ''WaitingForRemediation''"

subsection \<open>The object store, the remote cluster and the reconciler\<close>

text \<open>
  The client of the management cluster: the objects it holds and, for each kind of call
  the controller makes, whether the call fails. \<open>Client_FieldIndexes\<close> says whether
  a list by field is served from an index (the source re-filters because the fake client
  of the tests has none).
\<close>

record 'sel Client =
  Client_MachineHealthChecks :: "'sel MachineHealthCheck list"
  Client_Clusters :: "Cluster list"
  Client_Machines :: "Machine list"
  Client_FieldIndexes :: bool
  Client_GetMHCErr :: "error option"
  Client_GetClusterErr :: "error option"
  Client_ListMHCErr :: "error option"
  Client_ListMachineErr :: "error option"
  Client_NewHelperErr :: "error option"
  Client_PatchMachineErr :: "NamespacedName \<Rightarrow> error option"
  Client_PatchMHCErr :: "error option"

text \<open>The reader of the workload cluster that the tracker hands out.\<close>

record RemoteClient =
  Remote_Nodes :: "Node list"
  Remote_GetErr :: "error option"

record Tracker =
  Tracker_GetClientErr :: "error option"
  Tracker_WatchErr :: "error option"
  Tracker_Remote :: RemoteClient

text \<open>
  \<^verbatim>\<open>MachineHealthCheckReconciler\<close>, with two things the pass reads from outside the
  source file: the helper \<^verbatim>\<open>hasMatchingLabels\<close>, which decides whether a selector
  matches a label set and is kept as a parameter (every theorem holds for any such
  function), and the time of the pass.
\<close>

record 'sel MachineHealthCheckReconciler =
  Reconciler_Client :: "'sel Client"
  Reconciler_Tracker :: "Tracker option"
  hasMatchingLabels :: "'sel \<Rightarrow> labels \<Rightarrow> bool"
  Reconciler_Now :: Time

datatype EventType = EventTypeNormal | EventTypeWarning

datatype EventArg =
    ArgInt int
  | ArgInt32 "32 word"
  | ArgIntOrString "IntOrString option"
  | ArgString string
  | ArgError error

text \<open>An event as \<^verbatim>\<open>recorder.Eventf\<close> receives it: object, type, reason, format, arguments.\<close>

record Event =
  Event_Object :: NamespacedName
  Event_Type :: EventType
  Event_Reason :: string
  Event_Format :: string
  Event_Args :: "EventArg list"

text \<open>
  What a pass leaves behind: the events recorded, the Machine objects written by successful
  patches and the policy objects written by successful patches, each in the order of the
  calls.
\<close>

record 'sel World =
  Events :: "Event list"
  MachinePatches :: "Machine list"
  MHCPatches :: "'sel MachineHealthCheck list"

definition Eventf :: "'sel World \<Rightarrow> NamespacedName \<Rightarrow> EventType \<Rightarrow> string \<Rightarrow> string \<Rightarrow> EventArg list \<Rightarrow> 'sel World" where
  "Eventf w obj etype reason fmt args =
     w\<lparr>Events := Events w @
        [\<lparr>Event_Object = obj, Event_Type = etype, Event_Reason = reason,
          Event_Format = fmt, Event_Args = args\<rparr>]\<rparr>"

definition ObjectKey_Machine :: "Machine \<Rightarrow> NamespacedName" where
  "ObjectKey_Machine m = (Machine_Namespace m, Machine_Name m)"

definition ObjectKey_MHC :: "'sel MachineHealthCheck \<Rightarrow> NamespacedName" where
  "ObjectKey_MHC m = (MHC_Namespace m, MHC_Name m)"

definition ObjectKey_Cluster :: "Cluster \<Rightarrow> NamespacedName" where
  "ObjectKey_Cluster c = (Cluster_Namespace c, Cluster_Name c)"

text \<open>\<^verbatim>\<open>Client.Get\<close> of a policy: the object with that key, or not found.\<close>

definition Client_Get_MHC :: "'sel Client \<Rightarrow> NamespacedName \<Rightarrow> error + 'sel MachineHealthCheck" where
  "Client_Get_MHC c key =
     (case Client_GetMHCErr c of
        Some err \<Rightarrow> Inl err
      | None \<Rightarrow>
          (case find (\<lambda>m. ObjectKey_MHC m = key) (Client_MachineHealthChecks c) of
             None \<Rightarrow> Inl NotFound
           | Some m \<Rightarrow> Inr m))"

text \<open>
  Modelled from the spec: \<^verbatim>\<open>util.GetClusterByName\<close> is not under the source
  directory. The spec resolves the owning cluster with
  \<^verbatim>\<open>get(kind, namespacedName) \<rightarrow> object | NotFound\<close>.
\<close>

definition GetClusterByName :: "'sel Client \<Rightarrow> string \<Rightarrow> string \<Rightarrow> error + Cluster" where
  "GetClusterByName c namespace name =
     (case Client_GetClusterErr c of
        Some err \<Rightarrow> Inl err
      | None \<Rightarrow>
          (case find (\<lambda>cl. ObjectKey_Cluster cl = (namespace, name)) (Client_Clusters c) of
             None \<Rightarrow> Inl NotFound
           | Some cl \<Rightarrow> Inr cl))"

text \<open>
  \<^verbatim>\<open>Client.List\<close> of policies with \<^verbatim>\<open>InNamespace\<close> and \<^verbatim>\<open>MatchingLabels\<close> of
  one label.
\<close>

definition Client_List_MHC :: "'sel Client \<Rightarrow> string \<Rightarrow> string \<times> string \<Rightarrow> error + 'sel MachineHealthCheck list" where
  "Client_List_MHC c namespace lbl =
     (case Client_ListMHCErr c of
        Some err \<Rightarrow> Inl err
      | None \<Rightarrow>
          Inr (filter (\<lambda>mhc. MHC_Namespace mhc = namespace \<and> map_of (MHC_Labels mhc) (fst lbl) = Some (snd lbl))
                 (Client_MachineHealthChecks c)))"

text \<open>
  \<^verbatim>\<open>indexMachineByNodeName\<close>, with the line it logs for an object that is not a
  Machine, and \<^verbatim>\<open>Client.List\<close> of Machines with \<^verbatim>\<open>MatchingFields\<close> on that
  index, in every namespace. A client without indexes returns every Machine.
\<close>

definition indexMachineByNodeName :: "'sel Object \<Rightarrow> string list \<times> string list" where
  "indexMachineByNodeName object =
     (case object of
        MachineObject machine \<Rightarrow>
          (case Machine_Status_NodeRef machine of Some n \<Rightarrow> ([n], []) | None \<Rightarrow> ([], []))
      | _ \<Rightarrow> ([], [''expected a Machine'']))"

definition Client_List_Machines_ByField :: "'sel Client \<Rightarrow> string \<Rightarrow> error + Machine list" where
  "Client_List_Machines_ByField c nodeName =
     (case Client_ListMachineErr c of
        Some err \<Rightarrow> Inl err
      | None \<Rightarrow>
          Inr (if Client_FieldIndexes c
               then filter (\<lambda>m. nodeName \<in> set (fst (indexMachineByNodeName (MachineObject m :: 'sel Object))))
                      (Client_Machines c)
               else Client_Machines c))"

text \<open>
  A patch helper's \<^verbatim>\<open>Patch\<close>: the object in memory is written to the store, or the
  call fails and nothing is written.
\<close>

definition PatchMachine :: "'sel Client \<Rightarrow> Machine \<Rightarrow> 'sel World \<Rightarrow> error option \<times> 'sel World" where
  "PatchMachine c m w =
     (case Client_PatchMachineErr c (ObjectKey_Machine m) of
        Some err \<Rightarrow> (Some err, w)
      | None \<Rightarrow> (None, w\<lparr>MachinePatches := MachinePatches w @ [m]\<rparr>))"

definition PatchMHC :: "'sel Client \<Rightarrow> 'sel MachineHealthCheck \<Rightarrow> 'sel World \<Rightarrow> error option \<times> 'sel World" where
  "PatchMHC c m w =
     (case Client_PatchMHCErr c of
        Some err \<Rightarrow> (Some err, w)
      | None \<Rightarrow> (None, w\<lparr>MHCPatches := MHCPatches w @ [m]\<rparr>))"


subsection \<open>Targets and their health\<close>

text \<open>A target: a Machine and its Node, if there is one. Its patch helper is \<open>PatchMachine\<close>.\<close>

record healthCheckTarget =
  Target_Machine :: Machine
  Target_Node :: "Node option"

text \<open>
  Modelled from the spec: \<^verbatim>\<open>getTargetsFromMHC\<close> is defined beside the controller,
  outside the source file. The spec's target resolver returns "the full set of Targets
  whose Machine (a) belongs to the policy's cluster and (b) matches the policy's label
  selector, excluding machines already flagged as being deleted", resolves each Node "by
  the Machine's stored node reference", takes a Node that is not found as a target with no
  Node, and fails "only on unrecoverable store errors".
\<close>

definition Remote_Get_Node :: "RemoteClient \<Rightarrow> string \<Rightarrow> error + Node" where
  "Remote_Get_Node rc name =
     (case Remote_GetErr rc of
        Some err \<Rightarrow> Inl err
      | None \<Rightarrow>
          (case find (\<lambda>n. Node_Name n = name) (Remote_Nodes rc) of
             None \<Rightarrow> Inl NotFound
           | Some n \<Rightarrow> Inr n))"

fun resolveTargets :: "RemoteClient \<Rightarrow> Machine list \<Rightarrow> error + healthCheckTarget list" where
  "resolveTargets rc [] = Inr []"
| "resolveTargets rc (m # ms) =
     (case (case Machine_Status_NodeRef m of
              None \<Rightarrow> Inr None
            | Some n \<Rightarrow>
                (case Remote_Get_Node rc n of
                   Inl err \<Rightarrow> if IsNotFound err then Inr None else Inl err
                 | Inr node \<Rightarrow> Inr (Some node))) of
        Inl err \<Rightarrow> Inl err
      | Inr node \<Rightarrow>
          (case resolveTargets rc ms of
             Inl err \<Rightarrow> Inl err
           | Inr ts \<Rightarrow> Inr (\<lparr>Target_Machine = m, Target_Node = node\<rparr> # ts)))"

definition getTargetsFromMHC :: "'sel MachineHealthCheckReconciler \<Rightarrow> RemoteClient \<Rightarrow> 'sel MachineHealthCheck \<Rightarrow> error + healthCheckTarget list" where
  "getTargetsFromMHC r remoteClient mhc =
     (case Client_ListMachineErr (Reconciler_Client r) of
        Some err \<Rightarrow> Inl err
      | None \<Rightarrow>
          resolveTargets remoteClient
            (filter (\<lambda>m. Machine_Namespace m = MHC_Namespace mhc
                       \<and> Machine_Spec_ClusterName m = Spec_ClusterName mhc
                       \<and> hasMatchingLabels r (Spec_Selector mhc) (Machine_Labels m)
                       \<and> Machine_DeletionTimestamp m = None)
               (Client_Machines (Reconciler_Client r))))"

text \<open>
  Modelled from the spec: \<^verbatim>\<open>healthCheckTargets\<close> and the per-target check are
  defined beside the controller, outside the source file. The spec's health evaluator
  puts each target in exactly one of Healthy, Unhealthy and Pending: without a Node, the
  target is Unhealthy once the Machine's creation time plus the node-startup timeout has
  elapsed and Pending until then; with a Node, a rule whose condition has held the
  unhealthy status for at least its timeout makes the target Unhealthy, one that has not
  held it long enough makes it Pending, and a target that no rule matches is Healthy. The
  output is the healthy list, the unhealthy list and, for the pending targets, the time
  left until each one's candidate next check. The rules are the policy's, passed
  here beside the node-startup timeout.
\<close>

datatype Health = Healthy | Unhealthy | Pending Time

definition ruleVerdict :: "Time \<Rightarrow> Node \<Rightarrow> UnhealthyCondition \<Rightarrow> Health" where
  "ruleVerdict now node u =
     (case find (\<lambda>nc. NodeCondition_Type nc = UnhealthyCondition_Type u) (Node_Conditions node) of
        None \<Rightarrow> Healthy
      | Some nc \<Rightarrow>
          if NodeCondition_Status nc = UnhealthyCondition_Status u then
            (if NodeCondition_LastTransitionTime nc + UnhealthyCondition_Timeout u \<le> now then Unhealthy
             else Pending (NodeCondition_LastTransitionTime nc + UnhealthyCondition_Timeout u))
          else Healthy)"

fun pendingDeadlines :: "Health list \<Rightarrow> Time list" where
  "pendingDeadlines [] = []"
| "pendingDeadlines (Pending d # vs) = d # pendingDeadlines vs"
| "pendingDeadlines (v # vs) = pendingDeadlines vs"

definition classify :: "Time \<Rightarrow> Duration \<Rightarrow> UnhealthyCondition list \<Rightarrow> healthCheckTarget \<Rightarrow> Health" where
  "classify now timeoutForMachineToHaveNode rules t =
     (case Target_Node t of
        None \<Rightarrow>
          if Machine_CreationTimestamp (Target_Machine t) + timeoutForMachineToHaveNode \<le> now then Unhealthy
          else Pending (Machine_CreationTimestamp (Target_Machine t) + timeoutForMachineToHaveNode)
      | Some node \<Rightarrow>
          (let verdicts = map (ruleVerdict now node) rules in
           if Unhealthy \<in> set verdicts then Unhealthy
           else (case pendingDeadlines verdicts of
                   [] \<Rightarrow> Healthy
                 | d # ds \<Rightarrow> Pending (fold min ds d))))"

fun nextCheckTimesOf :: "Time \<Rightarrow> Health list \<Rightarrow> Duration list" where
  "nextCheckTimesOf now [] = []"
| "nextCheckTimesOf now (Pending d # vs) = (d - now) # nextCheckTimesOf now vs"
| "nextCheckTimesOf now (v # vs) = nextCheckTimesOf now vs"

definition healthCheckTargets :: "'sel MachineHealthCheckReconciler \<Rightarrow> UnhealthyCondition list \<Rightarrow> healthCheckTarget list \<Rightarrow> Duration \<Rightarrow> healthCheckTarget list \<times> healthCheckTarget list \<times> Duration list" where
  "healthCheckTargets r rules targets timeoutForMachineToHaveNode =
     (let verdict = classify (Reconciler_Now r) timeoutForMachineToHaveNode rules
      in (filter (\<lambda>t. verdict t = Healthy) targets,
          filter (\<lambda>t. verdict t = Unhealthy) targets,
          nextCheckTimesOf (Reconciler_Now r) (map verdict targets)))"

text \<open>
  Modelled from the spec: \<^verbatim>\<open>minDuration\<close> is defined beside the controller,
  outside the source file. The spec keeps "the minimum candidate next-check time", "zero/absent
  if none pending".
\<close>

definition minDuration :: "Duration list \<Rightarrow> Duration" where
  "minDuration durations = (case durations of [] \<Rightarrow> 0 | d # ds \<Rightarrow> fold min ds d)"

text \<open>
  Modelled from the spec: the target's \<^verbatim>\<open>string\<close> method is defined beside the
  controller, outside the source file. The spec's event records "which target was
  marked": the target is named by its Machine.
\<close>

definition target_string :: "healthCheckTarget \<Rightarrow> string" where
  "target_string t = Machine_Namespace (Target_Machine t) @ ''/'' @ Machine_Name (Target_Machine t)"

subsection \<open>Helpers of the pass\<close>

text \<open>
  Modelled from the spec: \<^verbatim>\<open>util.EnsureOwnerRef\<close> is not under the source
  directory. The spec's pass has a step "ensure owner linkage": the reference is there
  afterwards, once, in place of an older reference to the same owner.
\<close>

definition sameOwner :: "OwnerReference \<Rightarrow> OwnerReference \<Rightarrow> bool" where
  "sameOwner a b =
     (OwnerReference_APIVersion a = OwnerReference_APIVersion b
      \<and> OwnerReference_Kind a = OwnerReference_Kind b
      \<and> OwnerReference_Name a = OwnerReference_Name b)"

definition EnsureOwnerRef :: "OwnerReference list \<Rightarrow> OwnerReference \<Rightarrow> OwnerReference list" where
  "EnsureOwnerRef ownerReferences ref =
     (if list_ex (sameOwner ref) ownerReferences
      then map (\<lambda>r. if sameOwner ref r then ref else r) ownerReferences
      else ownerReferences @ [ref])"

text \<open>
  Modelled from the spec: \<^verbatim>\<open>annotations.IsPaused\<close> is not under the source
  directory. The spec short-circuits the pass "if paused": the cluster is paused, or the
  policy carries the paused annotation.
\<close>

definition IsPaused :: "Cluster \<Rightarrow> 'sel MachineHealthCheck \<Rightarrow> bool" where
  "IsPaused cluster m =
     (Cluster_Spec_Paused cluster \<or> map_of (MHC_Annotations m) PausedAnnotation \<noteq> None)"

text \<open>
  Modelled from the spec: \<^verbatim>\<open>conditions.MarkFalse\<close> is not under the source
  directory. The spec sets "the Machine's remediation-requested condition to a waiting
  state with a warning severity and a fixed reason": the condition of the given type gets
  status False with the reason, severity and message given, in place of an older
  condition of that type.
\<close>

definition setCondition :: "Condition list \<Rightarrow> Condition \<Rightarrow> Condition list" where
  "setCondition cs c =
     (if list_ex (\<lambda>x. Condition_Type x = Condition_Type c) cs
      then map (\<lambda>x. if Condition_Type x = Condition_Type c then c else x) cs
      else cs @ [c])"

definition MarkFalse :: "Machine \<Rightarrow> string \<Rightarrow> string \<Rightarrow> ConditionSeverity \<Rightarrow> string \<Rightarrow> Machine" where
  "MarkFalse machine t reason severity message =
     machine\<lparr>Machine_Status_Conditions :=
       setCondition (Machine_Status_Conditions machine)
         \<lparr>Condition_Type = t, Condition_Status = ConditionFalse, Condition_Severity = severity,
          Condition_Reason = reason, Condition_Message = message\<rparr>\<rparr>"

text \<open>
  Modelled from the spec: \<^verbatim>\<open>Tracker.GetClient\<close> belongs to the remote package,
  outside the source file. The spec has \<^verbatim>\<open>getReaderFor(clusterRef) \<rightarrow> reader\<close>, which
  "may fail if the remote cluster is unreachable". A reconciler without a tracker has no
  reader to hand out.
\<close>

definition Tracker_GetClient :: "Tracker option \<Rightarrow> NamespacedName \<Rightarrow> error + RemoteClient" where
  "Tracker_GetClient tracker cluster =
     (case tracker of
        None \<Rightarrow> Inl (Failure ''no tracker'')
      | Some t \<Rightarrow>
          (case Tracker_GetClientErr t of
             Some err \<Rightarrow> Inl err
           | None \<Rightarrow> Inr (Tracker_Remote t)))"

text \<open>\<^verbatim>\<open>watchClusterNodes\<close>.\<close>

definition watchClusterNodes :: "'sel MachineHealthCheckReconciler \<Rightarrow> Cluster \<Rightarrow> error option" where
  "watchClusterNodes r cluster =
     (case Reconciler_Tracker r of
        None \<Rightarrow> None
      | Some t \<Rightarrow> Tracker_WatchErr t)"

subsection \<open>One reconciliation pass\<close>

text \<open>\<^verbatim>\<open>ctrl.Result\<close>: requeue at once, or after a delay.\<close>

record Result =
  Requeue :: bool
  RequeueAfter :: Duration

definition Result_empty :: Result where
  "Result_empty = \<lparr>Requeue = False, RequeueAfter = 0\<rparr>"

text \<open>
  The loops of \<^verbatim>\<open>reconcile\<close> that patch targets without touching them (one when
  remediation is restricted, one for the healthy targets): the first failing patch ends
  the loop with the wrapped error.
\<close>

fun patchTargets :: "string \<Rightarrow> 'sel Client \<Rightarrow> healthCheckTarget list \<Rightarrow> 'sel World \<Rightarrow> error option \<times> 'sel World" where
  "patchTargets msg c [] w = (None, w)"
| "patchTargets msg c (t # ts) w =
     (case PatchMachine c (Target_Machine t) w of
        (Some err, w') \<Rightarrow> (Some (Wrapped msg [Machine_Name (Target_Machine t)] err), w')
      | (None, w') \<Rightarrow> patchTargets msg c ts w')"

text \<open>
  The loop that marks the unhealthy targets: the condition is set on the Machine in
  memory, the Machine is patched, and the event is recorded after a successful patch.
\<close>

definition markUnhealthy :: "Machine \<Rightarrow> Machine" where
  "markUnhealthy machine =
     MarkFalse machine MachineOwnerRemediatedCondition WaitingForRemediation
       ConditionSeverityWarning ''MachineHealthCheck failed''"

fun markForRemediation :: "'sel Client \<Rightarrow> healthCheckTarget list \<Rightarrow> 'sel World \<Rightarrow> error option \<times> 'sel World" where
  "markForRemediation c [] w = (None, w)"
| "markForRemediation c (t # ts) w =
     (case PatchMachine c (markUnhealthy (Target_Machine t)) w of
        (Some err, w') \<Rightarrow>
          (Some (Wrapped ''Failed to patch unhealthy machine status for machine %q''
                   [Machine_Name (Target_Machine t)] err), w')
      | (None, w') \<Rightarrow>
          markForRemediation c ts
            (Eventf w' (ObjectKey_Machine (Target_Machine t)) EventTypeNormal EventMachineMarkedUnhealthy
               ''Machine %v has been marked as unhealthy'' [ArgString (target_string t)]))"

text \<open>
  \<^verbatim>\<open>reconcile\<close>. The policy \<open>m\<close> is mutated through its pointer in the source and is
  returned here with the result; \<^verbatim>\<open>errList\<close> stays empty in the source, as here.
\<close>

definition reconcile :: "'sel MachineHealthCheckReconciler \<Rightarrow> Cluster \<Rightarrow> 'sel MachineHealthCheck \<Rightarrow> 'sel World \<Rightarrow> (Result \<times> error option) \<times> 'sel MachineHealthCheck \<times> 'sel World" where
  "reconcile r cluster m0 w0 =
     (let m = m0\<lparr>MHC_OwnerReferences :=
                  EnsureOwnerRef (MHC_OwnerReferences m0)
                    \<lparr>OwnerReference_APIVersion = GroupVersion_String, OwnerReference_Kind = ''Cluster'',
                     OwnerReference_Name = Cluster_Name cluster, OwnerReference_UID = Cluster_UID cluster\<rparr>\<rparr>
      in case Tracker_GetClient (Reconciler_Tracker r) (ObjectKey_Cluster cluster) of
           Inl err \<Rightarrow> ((Result_empty, Some err), m, w0)
         | Inr remoteClient \<Rightarrow>
      (case watchClusterNodes r cluster of
           Some err \<Rightarrow> ((Result_empty, Some (Wrapped ''Error watching nodes on target cluster'' [] err)), m, w0)
         | None \<Rightarrow>
      (case getTargetsFromMHC r remoteClient m of
           Inl err \<Rightarrow> ((Result_empty, Some (Wrapped ''Failed to fetch targets from MachineHealthCheck'' [] err)), m, w0)
         | Inr targets \<Rightarrow>
      (let totalTargets = length targets;
           m = m\<lparr>Status_ExpectedMachines := of_nat totalTargets,
                 Status_Targets := map (\<lambda>t. Machine_Name (Target_Machine t)) targets\<rparr>;
           (healthy, unhealthy, nextCheckTimes) =
              healthCheckTargets r (Spec_UnhealthyConditions m) targets (Spec_NodeStartupTimeout m);
           m = m\<lparr>Status_CurrentHealthy := of_nat (length healthy)\<rparr>
       in if \<not> isAllowedRemediation m then
            (let w = Eventf w0 (ObjectKey_MHC m) EventTypeWarning EventRemediationRestricted
                       ''Remediation restricted due to exceeded number of unhealthy machines (total: %v, unhealthy: %v, maxUnhealthy: %v)''
                       [ArgInt (int totalTargets), ArgInt32 (Status_CurrentHealthy m),
                        ArgIntOrString (Spec_MaxUnhealthy m)]
             in case patchTargets ''Failed to patch machine status for machine %q''
                       (Reconciler_Client r) (healthy @ unhealthy) w of
                  (Some err, w) \<Rightarrow> ((Result_empty, Some err), m, w)
                | (None, w) \<Rightarrow> ((\<lparr>Requeue = True, RequeueAfter = 0\<rparr>, None), m, w))
          else
            (let errList = ([] :: error option list)
             in case markForRemediation (Reconciler_Client r) unhealthy w0 of
                  (Some err, w) \<Rightarrow> ((Result_empty, Some err), m, w)
                | (None, w) \<Rightarrow>
             (case patchTargets ''Failed to patch healthy machine status for machine %q''
                       (Reconciler_Client r) healthy w of
                  (Some err, w) \<Rightarrow> ((Result_empty, Some err), m, w)
                | (None, w) \<Rightarrow>
                    if length errList > 0 then ((Result_empty, NewAggregate errList), m, w)
                    else
                      (let minNextCheck = minDuration nextCheckTimes
                       in if minNextCheck > 0
                          then ((\<lparr>Requeue = False, RequeueAfter = minNextCheck\<rparr>, None), m, w)
                          else ((Result_empty, None), m, w))))))))"

text \<open>
  \<^verbatim>\<open>Reconcile\<close>. The deferred function runs on every return after the patch helper
  exists: it patches the policy and joins a failure of that patch with the error of the
  pass.
\<close>

definition Reconcile :: "'sel MachineHealthCheckReconciler \<Rightarrow> NamespacedName \<Rightarrow> 'sel World \<Rightarrow> (Result \<times> error option) \<times> 'sel World" where
  "Reconcile r req w0 =
     (case Client_Get_MHC (Reconciler_Client r) req of
        Inl err \<Rightarrow>
          if IsNotFound err then ((Result_empty, None), w0)
          else ((Result_empty, Some err), w0)
      | Inr m \<Rightarrow>
     (case GetClusterByName (Reconciler_Client r) (MHC_Namespace m) (Spec_ClusterName m) of
        Inl err \<Rightarrow>
          ((Result_empty,
            Some (Wrapped ''failed to get Cluster %q for MachineHealthCheck %q in namespace %q''
                    [Spec_ClusterName m, MHC_Name m, MHC_Namespace m] err)), w0)
      | Inr cluster \<Rightarrow>
          if IsPaused cluster m then ((Result_empty, None), w0)
          else
     (case Client_NewHelperErr (Reconciler_Client r) of
        Some err \<Rightarrow> ((Result_empty, Some err), w0)
      | None \<Rightarrow>
     (let m = m\<lparr>MHC_Labels := AList.update ClusterLabelName (Spec_ClusterName m) (MHC_Labels m)\<rparr>;
          ((result, err), m, w) = reconcile r cluster m w0;
          (ret, reterr, w) =
             (case err of
                Some e \<Rightarrow>
                  (Result_empty, Some e,
                   Eventf w (ObjectKey_MHC m) EventTypeWarning ''ReconcileError'' ''%v'' [ArgError e])
              | None \<Rightarrow> (result, None, w))
      in case PatchMHC (Reconciler_Client r) m w of
           (Some perr, w) \<Rightarrow> ((ret, NewAggregate [reterr, Some perr]), w)
         | (None, w) \<Rightarrow> ((ret, reterr), w)))))"

subsection \<open>From change notifications to reconcile requests\<close>

text \<open>
  The mapping functions check the kind of the object first. They return the requests and
  the lines they log as errors.
\<close>

text \<open>\<^verbatim>\<open>clusterToMachineHealthCheck\<close>.\<close>

definition clusterToMachineHealthCheck :: "'sel MachineHealthCheckReconciler \<Rightarrow> 'sel Object \<Rightarrow> NamespacedName list \<times> string list" where
  "clusterToMachineHealthCheck r obj =
     (case obj of
        ClusterObject c \<Rightarrow>
          (case Client_List_MHC (Reconciler_Client r) (Cluster_Namespace c) (ClusterLabelName, Cluster_Name c) of
             Inl err \<Rightarrow> ([], [''Unable to list MachineHealthChecks''])
           | Inr items \<Rightarrow> (map (\<lambda>mhc. (MHC_Namespace mhc, MHC_Name mhc)) items, []))
      | _ \<Rightarrow> ([], [''expected a Cluster'']))"

text \<open>\<^verbatim>\<open>machineToMachineHealthCheck\<close>.\<close>

definition machineToMachineHealthCheck :: "'sel MachineHealthCheckReconciler \<Rightarrow> 'sel Object \<Rightarrow> NamespacedName list \<times> string list" where
  "machineToMachineHealthCheck r obj =
     (case obj of
        MachineObject m \<Rightarrow>
          (case Client_List_MHC (Reconciler_Client r) (Machine_Namespace m) (ClusterLabelName, Machine_Spec_ClusterName m) of
             Inl err \<Rightarrow> ([], [''Unable to list MachineHealthChecks''])
           | Inr items \<Rightarrow>
               (map ObjectKey_MHC
                  (filter (\<lambda>mhc. hasMatchingLabels r (Spec_Selector mhc) (Machine_Labels m)) items), []))
      | _ \<Rightarrow> ([], [''expected a Machine'']))"

text \<open>\<^verbatim>\<open>machineNames\<close> and \<^verbatim>\<open>getMachineFromNode\<close>.\<close>

definition machineNames :: "Machine list \<Rightarrow> string list" where
  "machineNames machines = map Machine_Name machines"

definition getMachineFromNode :: "'sel MachineHealthCheckReconciler \<Rightarrow> string \<Rightarrow> error + Machine" where
  "getMachineFromNode r nodeName =
     (case Client_List_Machines_ByField (Reconciler_Client r) nodeName of
        Inl err \<Rightarrow> Inl (Wrapped ''failed getting machine list'' [] err)
      | Inr machineList \<Rightarrow>
          (let items = filter (\<lambda>machine. Machine_Status_NodeRef machine = Some nodeName) machineList
           in if length items \<noteq> 1
              then Inl (Errorf ''expecting one machine for node %v, got %v'' (nodeName # machineNames items))
              else Inr (hd items)))"

text \<open>\<^verbatim>\<open>nodeToMachineHealthCheck\<close>.\<close>

definition nodeToMachineHealthCheck :: "'sel MachineHealthCheckReconciler \<Rightarrow> 'sel Object \<Rightarrow> NamespacedName list \<times> string list" where
  "nodeToMachineHealthCheck r obj =
     (case obj of
        NodeObject node \<Rightarrow>
          (case getMachineFromNode r (Node_Name node) of
             Inl err \<Rightarrow> ([], [''Unable to retrieve machine from node''])
           | Inr machine \<Rightarrow> machineToMachineHealthCheck r (MachineObject machine))
      | _ \<Rightarrow> ([], [''expected a Node'']))"

subsection \<open>Notions used in the statements\<close>

text \<open>
  The targets a pass resolves, when it gets as far as the health evaluation: the steps of
  \<^verbatim>\<open>reconcile\<close> before the evaluation, none of which looks at the owner references
  set at its start.
\<close>

definition resolvedTargets :: "'sel MachineHealthCheckReconciler \<Rightarrow> Cluster \<Rightarrow> 'sel MachineHealthCheck \<Rightarrow> healthCheckTarget list option" where
  "resolvedTargets r cluster m =
     (case Tracker_GetClient (Reconciler_Tracker r) (ObjectKey_Cluster cluster) of
        Inl err \<Rightarrow> None
      | Inr remoteClient \<Rightarrow>
          (case watchClusterNodes r cluster of
             Some err \<Rightarrow> None
           | None \<Rightarrow>
               (case getTargetsFromMHC r remoteClient m of
                  Inl err \<Rightarrow> None
                | Inr targets \<Rightarrow> Some targets)))"

text \<open>The patch of this target's Machine succeeds.\<close>

definition patchSucceeds :: "'sel Client \<Rightarrow> healthCheckTarget \<Rightarrow> bool" where
  "patchSucceeds c t = (Client_PatchMachineErr c (ObjectKey_Machine (Target_Machine t)) = None)"

text \<open>
  The error a patching loop returns: that of the first target whose patch fails, wrapped
  with the loop's message.
\<close>

definition firstPatchError :: "string \<Rightarrow> 'sel Client \<Rightarrow> healthCheckTarget list \<Rightarrow> error option" where
  "firstPatchError msg c ts =
     (case dropWhile (patchSucceeds c) ts of
        [] \<Rightarrow> None
      | t # rest \<Rightarrow>
          map_option (Wrapped msg [Machine_Name (Target_Machine t)])
            (Client_PatchMachineErr c (ObjectKey_Machine (Target_Machine t))))"

text \<open>
  The policy as \<^verbatim>\<open>reconcile\<close> has updated it when it runs the admission check, given
  the targets it resolved and those it found healthy.
\<close>

definition evaluatedPolicy :: "Cluster \<Rightarrow> 'sel MachineHealthCheck \<Rightarrow> healthCheckTarget list \<Rightarrow> healthCheckTarget list \<Rightarrow> 'sel MachineHealthCheck" where
  "evaluatedPolicy cluster m0 targets healthy =
     m0\<lparr>MHC_OwnerReferences :=
          EnsureOwnerRef (MHC_OwnerReferences m0)
            \<lparr>OwnerReference_APIVersion = GroupVersion_String, OwnerReference_Kind = ''Cluster'',
             OwnerReference_Name = Cluster_Name cluster, OwnerReference_UID = Cluster_UID cluster\<rparr>,
        Status_ExpectedMachines := of_nat (length targets),
        Status_Targets := map (\<lambda>t. Machine_Name (Target_Machine t)) targets,
        Status_CurrentHealthy := of_nat (length healthy)\<rparr>"

text \<open>The Machine carries the remediation-requested condition.\<close>

definition hasRemediationCondition :: "Machine \<Rightarrow> bool" where
  "hasRemediationCondition machine =
     list_ex (\<lambda>c. Condition_Type c = MachineOwnerRemediatedCondition) (Machine_Status_Conditions machine)"

text \<open>The condition that the marking loop sets, and the events of the pass.\<close>

definition remediationCondition :: Condition where
  "remediationCondition =
     \<lparr>Condition_Type = MachineOwnerRemediatedCondition, Condition_Status = ConditionFalse,
      Condition_Severity = ConditionSeverityWarning, Condition_Reason = WaitingForRemediation,
      Condition_Message = ''MachineHealthCheck failed''\<rparr>"

definition markedEvent :: "healthCheckTarget \<Rightarrow> Event" where
  "markedEvent t =
     \<lparr>Event_Object = ObjectKey_Machine (Target_Machine t), Event_Type = EventTypeNormal,
      Event_Reason = EventMachineMarkedUnhealthy,
      Event_Format = ''Machine %v has been marked as unhealthy'',
      Event_Args = [ArgString (target_string t)]\<rparr>"

definition restrictedEvent :: "'sel MachineHealthCheck \<Rightarrow> nat \<Rightarrow> Event" where
  "restrictedEvent m totalTargets =
     \<lparr>Event_Object = ObjectKey_MHC m, Event_Type = EventTypeWarning,
      Event_Reason = EventRemediationRestricted,
      Event_Format = ''Remediation restricted due to exceeded number of unhealthy machines (total: %v, unhealthy: %v, maxUnhealthy: %v)'',
      Event_Args = [ArgInt (int totalTargets), ArgInt32 (Status_CurrentHealthy m),
                    ArgIntOrString (Spec_MaxUnhealthy m)]\<rparr>"

subsection \<open>A small fleet\<close>

text \<open>
  Concrete objects for the statements below that are about one input: a cluster, a policy
  whose selector is a list of labels that a Machine must carry, Machines with their Nodes,
  and a reconciler over them at time 1000. Node \<open>na\<close> is ready; \<open>nb\<close> and \<open>nd\<close> have
  not been ready since time 0, longer than the rule's 300; \<open>nc\<close> has not been ready since
  time 900.
\<close>

definition ex_matches :: "labels \<Rightarrow> labels \<Rightarrow> bool" where
  "ex_matches sel lbls = list_all (\<lambda>kv. map_of lbls (fst kv) = Some (snd kv)) sel"

definition ex_cluster :: Cluster where
  "ex_cluster = \<lparr>Cluster_Namespace = ''default'', Cluster_Name = ''c1'', Cluster_UID = ''uid1'',
                 Cluster_Spec_Paused = False\<rparr>"

definition ex_policy :: "IntOrString option \<Rightarrow> labels MachineHealthCheck" where
  "ex_policy maxUnhealthy =
     \<lparr>MHC_Namespace = ''default'', MHC_Name = ''mhc1'', MHC_Labels = [(ClusterLabelName, ''c1'')],
      MHC_Annotations = [], MHC_OwnerReferences = [], Spec_ClusterName = ''c1'',
      Spec_Selector = [(''role'', ''worker'')],
      Spec_UnhealthyConditions =
        [\<lparr>UnhealthyCondition_Type = ''Ready'', UnhealthyCondition_Status = ConditionFalse,
          UnhealthyCondition_Timeout = 300\<rparr>],
      Spec_NodeStartupTimeout = 600, Spec_MaxUnhealthy = maxUnhealthy,
      Status_ExpectedMachines = 0, Status_CurrentHealthy = 0, Status_Targets = []\<rparr>"

definition ex_machine :: "string \<Rightarrow> string \<Rightarrow> Condition list \<Rightarrow> Machine" where
  "ex_machine name node conds =
     \<lparr>Machine_Namespace = ''default'', Machine_Name = name, Machine_Labels = [(''role'', ''worker'')],
      Machine_CreationTimestamp = 0, Machine_DeletionTimestamp = None,
      Machine_Spec_ClusterName = ''c1'', Machine_Status_NodeRef = Some node,
      Machine_Status_Conditions = conds\<rparr>"

definition ex_node :: "string \<Rightarrow> ConditionStatus \<Rightarrow> Time \<Rightarrow> Node" where
  "ex_node name ready since =
     \<lparr>Node_Name = name,
      Node_Conditions = [\<lparr>NodeCondition_Type = ''Ready'', NodeCondition_Status = ready,
                          NodeCondition_LastTransitionTime = since\<rparr>]\<rparr>"

definition ex_nodes :: "Node list" where
  "ex_nodes = [ex_node ''na'' ConditionTrue 0, ex_node ''nb'' ConditionFalse 0,
               ex_node ''nc'' ConditionFalse 900, ex_node ''nd'' ConditionFalse 0]"

definition ex_target :: "string \<Rightarrow> string \<Rightarrow> ConditionStatus \<Rightarrow> Time \<Rightarrow> Condition list \<Rightarrow> healthCheckTarget" where
  "ex_target name node ready since conds =
     \<lparr>Target_Machine = ex_machine name node conds, Target_Node = Some (ex_node node ready since)\<rparr>"

definition ex_reconciler :: "labels MachineHealthCheck list \<Rightarrow> Cluster list \<Rightarrow> Machine list \<Rightarrow> NamespacedName list \<Rightarrow> error option \<Rightarrow> labels MachineHealthCheckReconciler" where
  "ex_reconciler mhcs clusters machines failingPatches listErr =
     \<lparr>Reconciler_Client =
        \<lparr>Client_MachineHealthChecks = mhcs, Client_Clusters = clusters, Client_Machines = machines,
         Client_FieldIndexes = True, Client_GetMHCErr = None, Client_GetClusterErr = None,
         Client_ListMHCErr = listErr, Client_ListMachineErr = None, Client_NewHelperErr = None,
         Client_PatchMachineErr = (\<lambda>key. if key \<in> set failingPatches then Some (Failure ''conflict'') else None),
         Client_PatchMHCErr = None\<rparr>,
      Reconciler_Tracker =
        Some \<lparr>Tracker_GetClientErr = None, Tracker_WatchErr = None,
              Tracker_Remote = \<lparr>Remote_Nodes = ex_nodes, Remote_GetErr = None\<rparr>\<rparr>,
      hasMatchingLabels = ex_matches, Reconciler_Now = 1000\<rparr>"

definition ex_world :: "labels World" where
  "ex_world = \<lparr>Events = [], MachinePatches = [], MHCPatches = []\<rparr>"

definition ex_ma :: Machine where "ex_ma = ex_machine ''ma'' ''na'' []"
definition ex_mb :: Machine where "ex_mb = ex_machine ''mb'' ''nb'' []"
definition ex_mc :: Machine where "ex_mc = ex_machine ''mc'' ''nc'' []"
definition ex_md :: Machine where "ex_md = ex_machine ''md'' ''nd'' []"

definition ex_ma_marked :: Machine where
  "ex_ma_marked = ex_machine ''ma'' ''na'' [remediationCondition]"

definition ex_policy_infra :: "labels MachineHealthCheck" where
  "ex_policy_infra = (ex_policy None)\<lparr>MHC_Name := ''mhc2'', Spec_Selector := [(''role'', ''infra'')]\<rparr>"

definition ex_policy_elsewhere :: "labels MachineHealthCheck" where
  "ex_policy_elsewhere = (ex_policy None)\<lparr>MHC_Namespace := ''other'', MHC_Name := ''mhc3''\<rparr>"

definition ex_ma_twin :: Machine where
  "ex_ma_twin = ex_machine ''ma2'' ''na'' []"

section \<open>Properties\<close>

subsection \<open>Arithmetic and resolution\<close>

lemma sint_sub_in_range:
  fixes a b :: "32 word"
  assumes "0 \<le> sint b" and "sint b \<le> sint a"
  shows "sint (a - b) = sint a - sint b"
proof -
  have ub: "sint a < 2 ^ 31"
    using sint_lt [of a] by simp
  have "sint (a - b) = signed_take_bit 31 (sint a - sint b)"
    by (simp add: sint_word_ariths)
  also have "\<dots> = sint a - sint b"
    using assms ub by (intro signed_take_bit_int_eq_self) simp_all
  finally show ?thesis .
qed

lemma percent_floor:
  assumes "getIntOrPercentValue v = Inr (p, True)"
  shows "GetValueFromIntOrPercent (Some v) tot False = Inr ((p * tot) div 100)"
  using assms by (simp add: GetValueFromIntOrPercent_def)

lemma fifty_percent_value: "getIntOrPercentValue (StrVal ''50%'') = Inr (50, True)"
  by (simp add: getIntOrPercentValue_def Atoi_def digitVal_def)

subsection \<open>The loops and the pass\<close>

lemma ObjectKey_markUnhealthy [simp]:
  "ObjectKey_Machine (markUnhealthy m) = ObjectKey_Machine m"
  by (simp add: ObjectKey_Machine_def markUnhealthy_def MarkFalse_def)

lemma patchTargets_eq:
  "patchTargets msg c ts w =
     (firstPatchError msg c ts,
      w\<lparr>MachinePatches := MachinePatches w @ map Target_Machine (takeWhile (patchSucceeds c) ts)\<rparr>)"
proof (induction ts arbitrary: w)
  case Nil
  show ?case by (simp add: firstPatchError_def)
next
  case (Cons t ts)
  show ?case
  proof (cases "Client_PatchMachineErr c (ObjectKey_Machine (Target_Machine t))")
    case None
    then show ?thesis
      using Cons.IH [of "w\<lparr>MachinePatches := MachinePatches w @ [Target_Machine t]\<rparr>"]
      by (simp add: PatchMachine_def patchSucceeds_def firstPatchError_def)
  next
    case (Some e)
    then show ?thesis
      by (simp add: PatchMachine_def patchSucceeds_def firstPatchError_def)
  qed
qed

lemma markForRemediation_eq:
  "markForRemediation c ts w =
     (firstPatchError ''Failed to patch unhealthy machine status for machine %q'' c ts,
      w\<lparr>Events := Events w @ map markedEvent (takeWhile (patchSucceeds c) ts),
        MachinePatches := MachinePatches w
           @ map (\<lambda>t. markUnhealthy (Target_Machine t)) (takeWhile (patchSucceeds c) ts)\<rparr>)"
proof (induction ts arbitrary: w)
  case Nil
  show ?case by (simp add: firstPatchError_def)
next
  case (Cons t ts)
  show ?case
  proof (cases "Client_PatchMachineErr c (ObjectKey_Machine (Target_Machine t))")
    case None
    then show ?thesis
      using Cons.IH [of "Eventf (w\<lparr>MachinePatches := MachinePatches w @ [markUnhealthy (Target_Machine t)]\<rparr>)
            (ObjectKey_Machine (Target_Machine t)) EventTypeNormal EventMachineMarkedUnhealthy
               ''Machine %v has been marked as unhealthy'' [ArgString (target_string t)]"]
      by (simp add: PatchMachine_def patchSucceeds_def firstPatchError_def Eventf_def markedEvent_def)
  next
    case (Some e)
    then show ?thesis
      by (simp add: PatchMachine_def patchSucceeds_def firstPatchError_def)
  qed
qed

lemma firstPatchError_None_iff:
  "firstPatchError msg c ts = None \<longleftrightarrow> list_all (patchSucceeds c) ts"
proof (induction ts)
  case Nil
  show ?case by (simp add: firstPatchError_def)
next
  case (Cons t ts)
  then show ?case
    by (auto simp: firstPatchError_def patchSucceeds_def)
qed

lemma takeWhile_all: "list_all P xs \<Longrightarrow> takeWhile P xs = xs"
  by (induction xs) simp_all

lemma getTargetsFromMHC_owner:
  "getTargetsFromMHC r rc (m\<lparr>MHC_OwnerReferences := x\<rparr>) = getTargetsFromMHC r rc m"
  by (simp add: getTargetsFromMHC_def cong: option.case_cong)

lemma reconcile_unfold:
  assumes res: "resolvedTargets r cluster m0 = Some targets"
      and hc: "healthCheckTargets r (Spec_UnhealthyConditions m0) targets (Spec_NodeStartupTimeout m0)
                = (healthy, unhealthy, nct)"
  shows "reconcile r cluster m0 w0 =
     (let m = evaluatedPolicy cluster m0 targets healthy; c = Reconciler_Client r in
      if \<not> isAllowedRemediation m then
        (case patchTargets ''Failed to patch machine status for machine %q'' c (healthy @ unhealthy)
                (w0\<lparr>Events := Events w0 @ [restrictedEvent m (length targets)]\<rparr>) of
           (Some err, w) \<Rightarrow> ((Result_empty, Some err), m, w)
         | (None, w) \<Rightarrow> ((\<lparr>Requeue = True, RequeueAfter = 0\<rparr>, None), m, w))
      else
        (case markForRemediation c unhealthy w0 of
           (Some err, w) \<Rightarrow> ((Result_empty, Some err), m, w)
         | (None, w) \<Rightarrow>
             (case patchTargets ''Failed to patch healthy machine status for machine %q'' c healthy w of
                (Some err, w) \<Rightarrow> ((Result_empty, Some err), m, w)
              | (None, w) \<Rightarrow>
                  if minDuration nct > 0
                  then ((\<lparr>Requeue = False, RequeueAfter = minDuration nct\<rparr>, None), m, w)
                  else ((Result_empty, None), m, w))))"
proof -
  from res obtain rc where
    gc: "Tracker_GetClient (Reconciler_Tracker r) (ObjectKey_Cluster cluster) = Inr rc"
    and wn: "watchClusterNodes r cluster = None"
    and gt: "getTargetsFromMHC r rc m0 = Inr targets"
    by (auto simp: resolvedTargets_def split: sum.splits option.splits)
  show ?thesis
    unfolding reconcile_def
    by (simp add: gc wn gt hc getTargetsFromMHC_owner Let_def evaluatedPolicy_def
        restrictedEvent_def Eventf_def ObjectKey_MHC_def cong: prod.case_cong option.case_cong)
qed

lemma reconcile_denied:
  assumes res: "resolvedTargets r cluster m0 = Some targets"
      and hc: "healthCheckTargets r (Spec_UnhealthyConditions m0) targets (Spec_NodeStartupTimeout m0)
                = (healthy, unhealthy, nct)"
      and deny: "\<not> isAllowedRemediation (evaluatedPolicy cluster m0 targets healthy)"
  shows "reconcile r cluster m0 w0 =
     ((case firstPatchError ''Failed to patch machine status for machine %q'' (Reconciler_Client r)
               (healthy @ unhealthy) of
         Some err \<Rightarrow> (Result_empty, Some err)
       | None \<Rightarrow> (\<lparr>Requeue = True, RequeueAfter = 0\<rparr>, None)),
      evaluatedPolicy cluster m0 targets healthy,
      w0\<lparr>Events := Events w0 @ [restrictedEvent (evaluatedPolicy cluster m0 targets healthy) (length targets)],
         MachinePatches := MachinePatches w0
           @ map Target_Machine (takeWhile (patchSucceeds (Reconciler_Client r)) (healthy @ unhealthy))\<rparr>)"
  by (simp add: reconcile_unfold [OF res hc] deny patchTargets_eq Let_def split: option.splits)

lemma reconcile_admitted:
  assumes res: "resolvedTargets r cluster m0 = Some targets"
      and hc: "healthCheckTargets r (Spec_UnhealthyConditions m0) targets (Spec_NodeStartupTimeout m0)
                = (healthy, unhealthy, nct)"
      and admit: "isAllowedRemediation (evaluatedPolicy cluster m0 targets healthy)"
  shows "reconcile r cluster m0 w0 =
     (case firstPatchError ''Failed to patch unhealthy machine status for machine %q'' (Reconciler_Client r)
              unhealthy of
        Some err \<Rightarrow>
          ((Result_empty, Some err), evaluatedPolicy cluster m0 targets healthy,
           w0\<lparr>Events := Events w0 @ map markedEvent (takeWhile (patchSucceeds (Reconciler_Client r)) unhealthy),
              MachinePatches := MachinePatches w0
                @ map (\<lambda>t. markUnhealthy (Target_Machine t))
                    (takeWhile (patchSucceeds (Reconciler_Client r)) unhealthy)\<rparr>)
      | None \<Rightarrow>
          ((case firstPatchError ''Failed to patch healthy machine status for machine %q'' (Reconciler_Client r)
                   healthy of
              Some err \<Rightarrow> (Result_empty, Some err)
            | None \<Rightarrow>
                if minDuration nct > 0 then (\<lparr>Requeue = False, RequeueAfter = minDuration nct\<rparr>, None)
                else (Result_empty, None)),
           evaluatedPolicy cluster m0 targets healthy,
           w0\<lparr>Events := Events w0 @ map markedEvent unhealthy,
              MachinePatches := MachinePatches w0
                @ map (\<lambda>t. markUnhealthy (Target_Machine t)) unhealthy
                @ map Target_Machine (takeWhile (patchSucceeds (Reconciler_Client r)) healthy)\<rparr>))"
proof (cases "firstPatchError ''Failed to patch unhealthy machine status for machine %q''
                (Reconciler_Client r) unhealthy")
  case None
  then have tw: "takeWhile (patchSucceeds (Reconciler_Client r)) unhealthy = unhealthy"
    by (simp add: firstPatchError_None_iff takeWhile_all)
  show ?thesis
    by (cases "firstPatchError ''Failed to patch healthy machine status for machine %q''
                (Reconciler_Client r) healthy")
       (simp_all add: reconcile_unfold [OF res hc] admit patchTargets_eq markForRemediation_eq Let_def
          None tw)
next
  case (Some e)
  then show ?thesis
    by (simp add: reconcile_unfold [OF res hc] admit markForRemediation_eq Let_def)
qed


subsection \<open>Admission\<close>

text \<open>
  C1. For every policy the admission is decided as follows. When \<^verbatim>\<open>maxUnhealthy\<close> is
  nil, remediation is admitted. Otherwise, when \<^verbatim>\<open>maxUnhealthy\<close> resolves against
  the expected-machine count to \<open>resolvedMax\<close>, remediation is admitted if and only if
  the unhealthy count, the \<^verbatim>\<open>int32\<close> difference of expected and currently healthy
  machines, is at most \<open>resolvedMax\<close>; whenever the healthy count lies between 0 and the
  expected count, as a pass sets it, that difference is the difference of the two
  numbers. A percentage \<open>p\<close> resolves to \<open>p\<close> times the expected count divided by
  100 and rounded down. The statement after this one evaluates it on a policy with
  \<^verbatim>\<open>"50%"\<close> and three expected machines: the bound is 1, one unhealthy machine is
  admitted and two are not.
\<close>

theorem isAllowedRemediation_decision:
  fixes mhc :: "'sel MachineHealthCheck"
  shows "(Spec_MaxUnhealthy mhc = None \<longrightarrow> isAllowedRemediation mhc)
       \<and> (\<forall>v resolvedMax.
             Spec_MaxUnhealthy mhc = Some v
             \<longrightarrow> GetValueFromIntOrPercent (Some v) (sint (Status_ExpectedMachines mhc)) False = Inr resolvedMax
             \<longrightarrow> (isAllowedRemediation mhc
                  \<longleftrightarrow> sint (Status_ExpectedMachines mhc - Status_CurrentHealthy mhc) \<le> resolvedMax))
       \<and> (0 \<le> sint (Status_CurrentHealthy mhc)
            \<and> sint (Status_CurrentHealthy mhc) \<le> sint (Status_ExpectedMachines mhc)
          \<longrightarrow> sint (Status_ExpectedMachines mhc - Status_CurrentHealthy mhc)
                = sint (Status_ExpectedMachines mhc) - sint (Status_CurrentHealthy mhc))
       \<and> (\<forall>v p. Spec_MaxUnhealthy mhc = Some v \<longrightarrow> getIntOrPercentValue v = Inr (p, True)
            \<longrightarrow> (\<exists>resolvedMax.
                   GetValueFromIntOrPercent (Some v) (sint (Status_ExpectedMachines mhc)) False = Inr resolvedMax
                   \<and> 100 * resolvedMax \<le> p * sint (Status_ExpectedMachines mhc)
                   \<and> p * sint (Status_ExpectedMachines mhc) < 100 * resolvedMax + 100))"
proof (intro conjI allI impI)
  assume "Spec_MaxUnhealthy mhc = None"
  then show "isAllowedRemediation mhc"
    by (simp add: isAllowedRemediation_def)
next
  fix v resolvedMax
  assume "Spec_MaxUnhealthy mhc = Some v"
    and "GetValueFromIntOrPercent (Some v) (sint (Status_ExpectedMachines mhc)) False = Inr resolvedMax"
  then show "isAllowedRemediation mhc
      \<longleftrightarrow> sint (Status_ExpectedMachines mhc - Status_CurrentHealthy mhc) \<le> resolvedMax"
    by (simp add: isAllowedRemediation_def)
next
  assume "0 \<le> sint (Status_CurrentHealthy mhc)
            \<and> sint (Status_CurrentHealthy mhc) \<le> sint (Status_ExpectedMachines mhc)"
  then show "sint (Status_ExpectedMachines mhc - Status_CurrentHealthy mhc)
                = sint (Status_ExpectedMachines mhc) - sint (Status_CurrentHealthy mhc)"
    by (simp add: sint_sub_in_range)
next
  fix v p
  let ?e = "sint (Status_ExpectedMachines mhc)"
  assume "getIntOrPercentValue v = Inr (p, True)"
  then have "GetValueFromIntOrPercent (Some v) ?e False = Inr ((p * ?e) div 100)"
    by (rule percent_floor)
  moreover have "100 * ((p * ?e) div 100) \<le> p * ?e" and "p * ?e < 100 * ((p * ?e) div 100) + 100"
    by presburger+
  ultimately show "\<exists>resolvedMax.
      GetValueFromIntOrPercent (Some v) ?e False = Inr resolvedMax
      \<and> 100 * resolvedMax \<le> p * ?e \<and> p * ?e < 100 * resolvedMax + 100"
    by blast
qed

theorem isAllowedRemediation_decision_witness:
  "isAllowedRemediation (ex_policy None)
   \<and> GetValueFromIntOrPercent (Some (StrVal ''50%'')) 3 False = Inr 1
   \<and> isAllowedRemediation
       ((ex_policy (Some (StrVal ''50%'')))\<lparr>Status_ExpectedMachines := 3, Status_CurrentHealthy := 2\<rparr>)
   \<and> \<not> isAllowedRemediation
       ((ex_policy (Some (StrVal ''50%'')))\<lparr>Status_ExpectedMachines := 3, Status_CurrentHealthy := 1\<rparr>)"
proof -
  let ?m = "\<lambda>h. (ex_policy (Some (StrVal ''50%'')))\<lparr>Status_ExpectedMachines := 3, Status_CurrentHealthy := h\<rparr>"
  have none: "Spec_MaxUnhealthy (ex_policy None) = None"
    by (simp add: ex_policy_def)
  have some: "Spec_MaxUnhealthy (?m h) = Some (StrVal ''50%'')" for h
    by (simp add: ex_policy_def)
  have three: "sint (Status_ExpectedMachines (?m h)) = 3" for h
    by simp
  obtain resolvedMax where
    eq: "GetValueFromIntOrPercent (Some (StrVal ''50%'')) (sint (Status_ExpectedMachines (?m 2))) False = Inr resolvedMax"
    and lo: "100 * resolvedMax \<le> 50 * sint (Status_ExpectedMachines (?m 2))"
    and hi: "50 * sint (Status_ExpectedMachines (?m 2)) < 100 * resolvedMax + 100"
    using isAllowedRemediation_decision [of "?m 2", THEN conjunct2, THEN conjunct2, THEN conjunct2,
        rule_format, OF some fifty_percent_value]
    by blast
  from lo hi have "resolvedMax = 1"
    unfolding three by presburger
  with eq have res: "GetValueFromIntOrPercent (Some (StrVal ''50%'')) 3 False = Inr 1"
    unfolding three by simp
  have a1: "isAllowedRemediation (ex_policy None)"
    using isAllowedRemediation_decision [of "ex_policy None", THEN conjunct1] none by simp
  have a2: "isAllowedRemediation (?m 2)"
    using isAllowedRemediation_decision [of "?m 2", THEN conjunct2, THEN conjunct1, rule_format, OF some, of 1]
      res by simp
  have a3: "\<not> isAllowedRemediation (?m 1)"
    using isAllowedRemediation_decision [of "?m 1", THEN conjunct2, THEN conjunct1, rule_format, OF some, of 1]
      res by simp
  show ?thesis using res a1 a2 a3 by simp
qed

lemma firstPatchError_SomeD:
  assumes "firstPatchError msg c ts = Some x"
  shows "\<exists>t\<in>set ts. \<exists>pe. Client_PatchMachineErr c (ObjectKey_Machine (Target_Machine t)) = Some pe
            \<and> x = Wrapped msg [Machine_Name (Target_Machine t)] pe"
proof (cases "dropWhile (patchSucceeds c) ts")
  case Nil
  with assms show ?thesis by (simp add: firstPatchError_def)
next
  case (Cons t rest)
  then have "t \<in> set ts"
    by (metis list.set_intros(1) set_dropWhileD)
  with assms Cons show ?thesis
    by (auto simp: firstPatchError_def)
qed

lemma healthCheckTargets_filter:
  assumes "healthCheckTargets r rules targets timeout = (healthy, unhealthy, nct)"
  shows "healthy = filter (\<lambda>t. classify (Reconciler_Now r) timeout rules t = Healthy) targets"
    and "unhealthy = filter (\<lambda>t. classify (Reconciler_Now r) timeout rules t = Unhealthy) targets"
  using assms by (simp_all add: healthCheckTargets_def Let_def)

lemma reconcile_policy:
  assumes res: "resolvedTargets r cluster m0 = Some targets"
      and hc: "healthCheckTargets r (Spec_UnhealthyConditions m0) targets (Spec_NodeStartupTimeout m0)
                = (healthy, unhealthy, nct)"
  shows "fst (snd (reconcile r cluster m0 w0)) = evaluatedPolicy cluster m0 targets healthy"
proof (cases "isAllowedRemediation (evaluatedPolicy cluster m0 targets healthy)")
  case True
  then show ?thesis
    by (simp add: reconcile_admitted [OF res hc] split: option.splits)
next
  case False
  then show ?thesis
    by (simp add: reconcile_denied [OF res hc])
qed

lemma unresolved_denies:
  assumes "Spec_MaxUnhealthy mhc \<noteq> None"
      and "GetValueFromIntOrPercent (Spec_MaxUnhealthy mhc) (sint (Status_ExpectedMachines mhc)) False = Inl e"
  shows "\<not> isAllowedRemediation mhc"
  using assms by (simp add: isAllowedRemediation_def)

text \<open>
  C2. A policy whose \<^verbatim>\<open>maxUnhealthy\<close> is set but does not resolve against the
  expected-machine count is denied admission. A pass that reaches the admission check
  with such a policy does not fail because of it: it takes the restricted branch, returns
  no error and asks for a requeue when the patches of its targets succeed, and any error
  it returns is that of a target whose patch failed.
\<close>

theorem malformed_maxUnhealthy_fails_closed:
  fixes mhc :: "'sel MachineHealthCheck" and m0 :: "'sel MachineHealthCheck"
  shows "(Spec_MaxUnhealthy mhc \<noteq> None
          \<and> GetValueFromIntOrPercent (Spec_MaxUnhealthy mhc) (sint (Status_ExpectedMachines mhc)) False = Inl e
          \<longrightarrow> \<not> isAllowedRemediation mhc)
       \<and> (resolvedTargets r cluster m0 = Some targets
          \<and> reconcile r cluster m0 w0 = ((res, err), m', w')
          \<and> Spec_MaxUnhealthy m' \<noteq> None
          \<and> GetValueFromIntOrPercent (Spec_MaxUnhealthy m') (sint (Status_ExpectedMachines m')) False = Inl e'
          \<longrightarrow> \<not> isAllowedRemediation m'
             \<and> (list_all (patchSucceeds (Reconciler_Client r)) targets
                  \<longrightarrow> err = None \<and> res = \<lparr>Requeue = True, RequeueAfter = 0\<rparr>)
             \<and> (\<forall>x. err = Some x
                  \<longrightarrow> (\<exists>t\<in>set targets. \<exists>pe.
                         Client_PatchMachineErr (Reconciler_Client r) (ObjectKey_Machine (Target_Machine t)) = Some pe
                         \<and> x = Wrapped ''Failed to patch machine status for machine %q''
                                 [Machine_Name (Target_Machine t)] pe)))"
proof -
  have A: "Spec_MaxUnhealthy mhc \<noteq> None
          \<and> GetValueFromIntOrPercent (Spec_MaxUnhealthy mhc) (sint (Status_ExpectedMachines mhc)) False = Inl e
          \<longrightarrow> \<not> isAllowedRemediation mhc"
    by (simp add: unresolved_denies)
  have B: "\<not> isAllowedRemediation m'
             \<and> (list_all (patchSucceeds (Reconciler_Client r)) targets
                  \<longrightarrow> err = None \<and> res = \<lparr>Requeue = True, RequeueAfter = 0\<rparr>)
             \<and> (\<forall>x. err = Some x
                  \<longrightarrow> (\<exists>t\<in>set targets. \<exists>pe.
                         Client_PatchMachineErr (Reconciler_Client r) (ObjectKey_Machine (Target_Machine t)) = Some pe
                         \<and> x = Wrapped ''Failed to patch machine status for machine %q''
                                 [Machine_Name (Target_Machine t)] pe))"
    if a: "resolvedTargets r cluster m0 = Some targets
          \<and> reconcile r cluster m0 w0 = ((res, err), m', w')
          \<and> Spec_MaxUnhealthy m' \<noteq> None
          \<and> GetValueFromIntOrPercent (Spec_MaxUnhealthy m') (sint (Status_ExpectedMachines m')) False = Inl e'"
  proof -
    from a have rt: "resolvedTargets r cluster m0 = Some targets"
      and rc: "reconcile r cluster m0 w0 = ((res, err), m', w')"
      by simp_all
    obtain healthy unhealthy nct where
      hc: "healthCheckTargets r (Spec_UnhealthyConditions m0) targets (Spec_NodeStartupTimeout m0)
            = (healthy, unhealthy, nct)"
      by (cases "healthCheckTargets r (Spec_UnhealthyConditions m0) targets (Spec_NodeStartupTimeout m0)") auto
    have sub: "set (healthy @ unhealthy) \<subseteq> set targets"
      using healthCheckTargets_filter [OF hc] by auto
    have m': "m' = evaluatedPolicy cluster m0 targets healthy"
      using reconcile_policy [OF rt hc, of w0] rc by simp
    from a have deny: "\<not> isAllowedRemediation m'"
      by (simp add: unresolved_denies)
    let ?fe = "firstPatchError ''Failed to patch machine status for machine %q'' (Reconciler_Client r)
                 (healthy @ unhealthy)"
    have out: "(res, err) = (case ?fe of Some x \<Rightarrow> (Result_empty, Some x)
                             | None \<Rightarrow> (\<lparr>Requeue = True, RequeueAfter = 0\<rparr>, None))"
      using reconcile_denied [OF rt hc deny [unfolded m'], of w0] rc by simp
    have ok: "err = None \<and> res = \<lparr>Requeue = True, RequeueAfter = 0\<rparr>"
      if "list_all (patchSucceeds (Reconciler_Client r)) targets"
    proof -
      from that sub have "list_all (patchSucceeds (Reconciler_Client r)) (healthy @ unhealthy)"
        unfolding list_all_iff by blast
      then have "?fe = None"
        by (simp only: firstPatchError_None_iff)
      with out show ?thesis by simp
    qed
    have bad: "\<exists>t\<in>set targets. \<exists>pe.
                 Client_PatchMachineErr (Reconciler_Client r) (ObjectKey_Machine (Target_Machine t)) = Some pe
                 \<and> x = Wrapped ''Failed to patch machine status for machine %q''
                         [Machine_Name (Target_Machine t)] pe"
      if "err = Some x" for x
    proof -
      from that out have "?fe = Some x"
        by (cases ?fe) simp_all
      from firstPatchError_SomeD [OF this] sub show ?thesis
        by blast
    qed
    from deny ok bad show ?thesis by blast
  qed
  from A B show ?thesis by blast
qed

theorem malformed_maxUnhealthy_fails_closed_witness:
  "resolvedTargets (ex_reconciler [] [] [ex_ma, ex_mb] [] None) ex_cluster (ex_policy (Some (StrVal ''abc'')))
     = Some [ex_target ''ma'' ''na'' ConditionTrue 0 [], ex_target ''mb'' ''nb'' ConditionFalse 0 []]
   \<and> GetValueFromIntOrPercent (Some (StrVal ''abc'')) 2 False
       = Inl (Wrapped ''invalid value for IntOrString'' [] (Failure ''invalid value''))
   \<and> \<not> isAllowedRemediation
         (fst (snd (reconcile (ex_reconciler [] [] [ex_ma, ex_mb] [] None) ex_cluster
                      (ex_policy (Some (StrVal ''abc''))) ex_world)))
   \<and> fst (reconcile (ex_reconciler [] [] [ex_ma, ex_mb] [] None) ex_cluster
             (ex_policy (Some (StrVal ''abc''))) ex_world)
       = (\<lparr>Requeue = True, RequeueAfter = 0\<rparr>, None)"
proof -
  let ?r = "ex_reconciler [] [] [ex_ma, ex_mb] [] None"
  let ?m0 = "ex_policy (Some (StrVal ''abc''))"
  let ?ts = "[ex_target ''ma'' ''na'' ConditionTrue 0 [], ex_target ''mb'' ''nb'' ConditionFalse 0 []]"
  let ?X = "reconcile ?r ex_cluster ?m0 ex_world"
  have rt: "resolvedTargets ?r ex_cluster ?m0 = Some ?ts"
    by code_simp
  have gv: "GetValueFromIntOrPercent (Some (StrVal ''abc'')) 2 False
       = Inl (Wrapped ''invalid value for IntOrString'' [] (Failure ''invalid value''))"
    by code_simp
  have X: "?X = ((fst (fst ?X), snd (fst ?X)), fst (snd ?X), snd (snd ?X))"
    by simp
  have spec: "Spec_MaxUnhealthy (fst (snd ?X)) = Some (StrVal ''abc'')"
    by code_simp
  have ex: "sint (Status_ExpectedMachines (fst (snd ?X))) = 2"
    by code_simp
  have ok: "list_all (patchSucceeds (Reconciler_Client ?r)) ?ts"
    by code_simp
  have hyp: "Spec_MaxUnhealthy (fst (snd ?X)) \<noteq> None"
    and hyp2: "GetValueFromIntOrPercent (Spec_MaxUnhealthy (fst (snd ?X)))
          (sint (Status_ExpectedMachines (fst (snd ?X)))) False
       = Inl (Wrapped ''invalid value for IntOrString'' [] (Failure ''invalid value''))"
    by (simp_all only: spec ex gv) simp
  from malformed_maxUnhealthy_fails_closed [THEN conjunct2, rule_format, OF conjI [OF rt conjI [OF X conjI [OF hyp hyp2]]]]
  have "\<not> isAllowedRemediation (fst (snd ?X))"
    and "list_all (patchSucceeds (Reconciler_Client ?r)) ?ts
          \<longrightarrow> snd (fst ?X) = None \<and> fst (fst ?X) = \<lparr>Requeue = True, RequeueAfter = 0\<rparr>"
    by blast+
  with ok rt gv show ?thesis
    by (simp add: prod_eq_iff)
qed

subsection \<open>A pass with remediation restricted\<close>

lemma reconcile_world_denied:
  assumes rt: "resolvedTargets r cluster m0 = Some targets"
      and hc: "healthCheckTargets r (Spec_UnhealthyConditions m0) targets (Spec_NodeStartupTimeout m0)
                = (healthy, unhealthy, nct)"
      and rc: "reconcile r cluster m0 w0 = ((res, err), m', w')"
      and deny: "\<not> isAllowedRemediation m'"
  shows "m' = evaluatedPolicy cluster m0 targets healthy"
    and "(res, err) =
           (case firstPatchError ''Failed to patch machine status for machine %q'' (Reconciler_Client r)
                   (healthy @ unhealthy) of
              Some x \<Rightarrow> (Result_empty, Some x)
            | None \<Rightarrow> (\<lparr>Requeue = True, RequeueAfter = 0\<rparr>, None))"
    and "w' = w0\<lparr>Events := Events w0 @ [restrictedEvent m' (length targets)],
                 MachinePatches := MachinePatches w0
                   @ map Target_Machine (takeWhile (patchSucceeds (Reconciler_Client r)) (healthy @ unhealthy))\<rparr>"
proof -
  show m': "m' = evaluatedPolicy cluster m0 targets healthy"
    using reconcile_policy [OF rt hc, of w0] rc by simp
  from deny have d: "\<not> isAllowedRemediation (evaluatedPolicy cluster m0 targets healthy)"
    by (simp add: m')
  show "(res, err) =
           (case firstPatchError ''Failed to patch machine status for machine %q'' (Reconciler_Client r)
                   (healthy @ unhealthy) of
              Some x \<Rightarrow> (Result_empty, Some x)
            | None \<Rightarrow> (\<lparr>Requeue = True, RequeueAfter = 0\<rparr>, None))"
    using reconcile_denied [OF rt hc d, of w0] rc by simp
  show "w' = w0\<lparr>Events := Events w0 @ [restrictedEvent m' (length targets)],
                 MachinePatches := MachinePatches w0
                   @ map Target_Machine (takeWhile (patchSucceeds (Reconciler_Client r)) (healthy @ unhealthy))\<rparr>"
    using reconcile_denied [OF rt hc d, of w0] rc by (simp add: m')
qed

text \<open>
  C3, as the source has it. In a pass in which admission is denied, the restriction event
  is recorded exactly once, before any patch, with the number of targets, the number of
  healthy targets and \<^verbatim>\<open>maxUnhealthy\<close>; no other event is recorded. The healthy
  targets and then the unhealthy ones are patched in order, each with its Machine as it was
  resolved, so that no Machine acquires the remediation-requested condition; the first
  patch that fails ends the loop, and the targets after it are not patched. When every
  patch succeeds, each healthy and each unhealthy target has been patched.
\<close>

theorem restricted_pass_effects:
  assumes "resolvedTargets r cluster m0 = Some targets"
      and "healthCheckTargets r (Spec_UnhealthyConditions m0) targets (Spec_NodeStartupTimeout m0)
            = (healthy, unhealthy, nct)"
      and "reconcile r cluster m0 w0 = ((res, err), m', w')"
      and "\<not> isAllowedRemediation m'"
  shows "Events w' = Events w0 @
           [\<lparr>Event_Object = ObjectKey_MHC m0, Event_Type = EventTypeWarning,
             Event_Reason = EventRemediationRestricted,
             Event_Format = ''Remediation restricted due to exceeded number of unhealthy machines (total: %v, unhealthy: %v, maxUnhealthy: %v)'',
             Event_Args = [ArgInt (int (length targets)), ArgInt32 (of_nat (length healthy)),
                           ArgIntOrString (Spec_MaxUnhealthy m0)]\<rparr>]
       \<and> MachinePatches w' = MachinePatches w0
            @ map Target_Machine (takeWhile (patchSucceeds (Reconciler_Client r)) (healthy @ unhealthy))
       \<and> (list_all (patchSucceeds (Reconciler_Client r)) (healthy @ unhealthy)
            \<longrightarrow> MachinePatches w' = MachinePatches w0 @ map Target_Machine (healthy @ unhealthy))
       \<and> (\<forall>machine \<in> set (drop (length (MachinePatches w0)) (MachinePatches w')).
             \<exists>t \<in> set targets. machine = Target_Machine t)
       \<and> MHCPatches w' = MHCPatches w0"
proof -
  note w = reconcile_world_denied [OF assms]
  have e: "restrictedEvent m' (length targets) =
           \<lparr>Event_Object = ObjectKey_MHC m0, Event_Type = EventTypeWarning,
             Event_Reason = EventRemediationRestricted,
             Event_Format = ''Remediation restricted due to exceeded number of unhealthy machines (total: %v, unhealthy: %v, maxUnhealthy: %v)'',
             Event_Args = [ArgInt (int (length targets)), ArgInt32 (of_nat (length healthy)),
                           ArgIntOrString (Spec_MaxUnhealthy m0)]\<rparr>"
    by (simp add: w(1) restrictedEvent_def evaluatedPolicy_def ObjectKey_MHC_def)
  have ev: "Events w' = Events w0 @
           [\<lparr>Event_Object = ObjectKey_MHC m0, Event_Type = EventTypeWarning,
             Event_Reason = EventRemediationRestricted,
             Event_Format = ''Remediation restricted due to exceeded number of unhealthy machines (total: %v, unhealthy: %v, maxUnhealthy: %v)'',
             Event_Args = [ArgInt (int (length targets)), ArgInt32 (of_nat (length healthy)),
                           ArgIntOrString (Spec_MaxUnhealthy m0)]\<rparr>]"
    unfolding e [symmetric] by (simp add: w(3))
  have mp: "MachinePatches w' = MachinePatches w0
            @ map Target_Machine (takeWhile (patchSucceeds (Reconciler_Client r)) (healthy @ unhealthy))"
    by (simp add: w(3))
  have mh: "MHCPatches w' = MHCPatches w0"
    by (simp add: w(3))
  have sub: "set (healthy @ unhealthy) \<subseteq> set targets"
    using healthCheckTargets_filter [OF assms(2)] by auto
  have all: "list_all (patchSucceeds (Reconciler_Client r)) (healthy @ unhealthy)
            \<longrightarrow> MachinePatches w' = MachinePatches w0 @ map Target_Machine (healthy @ unhealthy)"
  proof
    assume "list_all (patchSucceeds (Reconciler_Client r)) (healthy @ unhealthy)"
    then have "takeWhile (patchSucceeds (Reconciler_Client r)) (healthy @ unhealthy) = healthy @ unhealthy"
      by (rule takeWhile_all)
    then show "MachinePatches w' = MachinePatches w0 @ map Target_Machine (healthy @ unhealthy)"
      using mp by (simp only:)
  qed
  have only: "\<forall>machine \<in> set (drop (length (MachinePatches w0)) (MachinePatches w')).
             \<exists>t \<in> set targets. machine = Target_Machine t"
  proof
    fix machine
    assume "machine \<in> set (drop (length (MachinePatches w0)) (MachinePatches w'))"
    then have "machine \<in> Target_Machine ` set (takeWhile (patchSucceeds (Reconciler_Client r)) (healthy @ unhealthy))"
      unfolding mp by simp
    then obtain t where t: "t \<in> set (takeWhile (patchSucceeds (Reconciler_Client r)) (healthy @ unhealthy))"
      and m: "machine = Target_Machine t"
      by (rule imageE)
    from t have "t \<in> set (healthy @ unhealthy)"
      by (rule set_takeWhileD [THEN conjunct1])
    with sub have "t \<in> set targets"
      by blast
    with m show "\<exists>t \<in> set targets. machine = Target_Machine t"
      by blast
  qed
  show ?thesis
    by (rule conjI [OF ev conjI [OF mp conjI [OF all conjI [OF only mh]]]])
qed

theorem restricted_pass_effects_witness:
  "resolvedTargets (ex_reconciler [] [] [ex_ma, ex_mb, ex_md] [] None) ex_cluster (ex_policy (Some (IntVal 1)))
     = Some [ex_target ''ma'' ''na'' ConditionTrue 0 [], ex_target ''mb'' ''nb'' ConditionFalse 0 [],
             ex_target ''md'' ''nd'' ConditionFalse 0 []]
   \<and> \<not> isAllowedRemediation
         (fst (snd (reconcile (ex_reconciler [] [] [ex_ma, ex_mb, ex_md] [] None) ex_cluster
                      (ex_policy (Some (IntVal 1))) ex_world)))
   \<and> map Event_Reason (Events (snd (snd (reconcile (ex_reconciler [] [] [ex_ma, ex_mb, ex_md] [] None) ex_cluster
                      (ex_policy (Some (IntVal 1))) ex_world))))
       = [EventRemediationRestricted]
   \<and> MachinePatches (snd (snd (reconcile (ex_reconciler [] [] [ex_ma, ex_mb, ex_md] [] None) ex_cluster
                      (ex_policy (Some (IntVal 1))) ex_world)))
       = [ex_ma, ex_mb, ex_md]"
proof -
  let ?r = "ex_reconciler [] [] [ex_ma, ex_mb, ex_md] [] None"
  let ?m0 = "ex_policy (Some (IntVal 1))"
  let ?ta = "ex_target ''ma'' ''na'' ConditionTrue 0 []"
  let ?tb = "ex_target ''mb'' ''nb'' ConditionFalse 0 []"
  let ?td = "ex_target ''md'' ''nd'' ConditionFalse 0 []"
  let ?X = "reconcile ?r ex_cluster ?m0 ex_world"
  have rt: "resolvedTargets ?r ex_cluster ?m0 = Some [?ta, ?tb, ?td]"
    by code_simp
  have hc: "healthCheckTargets ?r (Spec_UnhealthyConditions ?m0) [?ta, ?tb, ?td] (Spec_NodeStartupTimeout ?m0)
              = ([?ta], [?tb, ?td], [])"
    by code_simp
  have X: "?X = ((fst (fst ?X), snd (fst ?X)), fst (snd ?X), snd (snd ?X))"
    by simp
  have deny: "\<not> isAllowedRemediation (fst (snd ?X))"
    by code_simp
  have ok: "list_all (patchSucceeds (Reconciler_Client ?r)) ([?ta] @ [?tb, ?td])"
    by code_simp
  have ms: "map Target_Machine ([?ta] @ [?tb, ?td]) = [ex_ma, ex_mb, ex_md]"
    by code_simp
  from restricted_pass_effects [OF rt hc X deny] ok
  have "map Event_Reason (Events (snd (snd ?X))) = map Event_Reason (Events ex_world) @ [EventRemediationRestricted]"
    and "MachinePatches (snd (snd ?X)) = MachinePatches ex_world @ map Target_Machine ([?ta] @ [?tb, ?td])"
    by simp_all
  then have "map Event_Reason (Events (snd (snd ?X))) = [EventRemediationRestricted]"
    and "MachinePatches (snd (snd ?X)) = [ex_ma, ex_mb, ex_md]"
    by (simp_all only: ms) (simp_all add: ex_world_def)
  with rt deny show ?thesis
    by simp
qed

text \<open>
  C3 as the spec states it has every healthy and unhealthy target patched in every denied
  pass. With one healthy and two unhealthy targets, \<^verbatim>\<open>maxUnhealthy\<close> 1 and a failing
  patch for the first target, admission is denied, the pass returns the patch error and
  no Machine is written.
\<close>

theorem restricted_pass_patch_failure_counterexample:
  "resolvedTargets (ex_reconciler [] [] [ex_ma, ex_mb, ex_md] [(''default'', ''ma'')] None) ex_cluster
       (ex_policy (Some (IntVal 1)))
     = Some [ex_target ''ma'' ''na'' ConditionTrue 0 [], ex_target ''mb'' ''nb'' ConditionFalse 0 [],
             ex_target ''md'' ''nd'' ConditionFalse 0 []]
   \<and> healthCheckTargets (ex_reconciler [] [] [ex_ma, ex_mb, ex_md] [(''default'', ''ma'')] None)
       (Spec_UnhealthyConditions (ex_policy (Some (IntVal 1))))
       [ex_target ''ma'' ''na'' ConditionTrue 0 [], ex_target ''mb'' ''nb'' ConditionFalse 0 [],
        ex_target ''md'' ''nd'' ConditionFalse 0 []]
       (Spec_NodeStartupTimeout (ex_policy (Some (IntVal 1))))
     = ([ex_target ''ma'' ''na'' ConditionTrue 0 []],
        [ex_target ''mb'' ''nb'' ConditionFalse 0 [], ex_target ''md'' ''nd'' ConditionFalse 0 []], [])
   \<and> \<not> isAllowedRemediation
         (fst (snd (reconcile (ex_reconciler [] [] [ex_ma, ex_mb, ex_md] [(''default'', ''ma'')] None) ex_cluster
                      (ex_policy (Some (IntVal 1))) ex_world)))
   \<and> MachinePatches (snd (snd (reconcile (ex_reconciler [] [] [ex_ma, ex_mb, ex_md] [(''default'', ''ma'')] None)
                      ex_cluster (ex_policy (Some (IntVal 1))) ex_world)))
       = []
   \<and> snd (fst (reconcile (ex_reconciler [] [] [ex_ma, ex_mb, ex_md] [(''default'', ''ma'')] None)
                      ex_cluster (ex_policy (Some (IntVal 1))) ex_world))
       = Some (Wrapped ''Failed to patch machine status for machine %q'' [''ma''] (Failure ''conflict''))"
  by code_simp

text \<open>
  C4, as the source has it. A pass in which admission is denied and every patch of a healthy
  or unhealthy target succeeds returns no error and the result with \<^verbatim>\<open>Requeue\<close>
  set and no delay: a requeue at once, not one after a time.
\<close>

theorem restricted_pass_result:
  assumes "resolvedTargets r cluster m0 = Some targets"
      and "healthCheckTargets r (Spec_UnhealthyConditions m0) targets (Spec_NodeStartupTimeout m0)
            = (healthy, unhealthy, nct)"
      and "reconcile r cluster m0 w0 = ((res, err), m', w')"
      and "\<not> isAllowedRemediation m'"
      and "list_all (patchSucceeds (Reconciler_Client r)) (healthy @ unhealthy)"
  shows "err = None \<and> res = \<lparr>Requeue = True, RequeueAfter = 0\<rparr>"
proof -
  have "firstPatchError ''Failed to patch machine status for machine %q'' (Reconciler_Client r)
          (healthy @ unhealthy) = None"
    using assms(5) by (simp only: firstPatchError_None_iff)
  with reconcile_world_denied(2) [OF assms(1-4)] show ?thesis
    by simp
qed

theorem restricted_pass_result_witness:
  "resolvedTargets (ex_reconciler [] [] [ex_ma, ex_mb, ex_md] [] None) ex_cluster (ex_policy (Some (IntVal 1)))
     = Some [ex_target ''ma'' ''na'' ConditionTrue 0 [], ex_target ''mb'' ''nb'' ConditionFalse 0 [],
             ex_target ''md'' ''nd'' ConditionFalse 0 []]
   \<and> \<not> isAllowedRemediation
         (fst (snd (reconcile (ex_reconciler [] [] [ex_ma, ex_mb, ex_md] [] None) ex_cluster
                      (ex_policy (Some (IntVal 1))) ex_world)))
   \<and> fst (reconcile (ex_reconciler [] [] [ex_ma, ex_mb, ex_md] [] None) ex_cluster
             (ex_policy (Some (IntVal 1))) ex_world)
       = (\<lparr>Requeue = True, RequeueAfter = 0\<rparr>, None)"
proof -
  let ?r = "ex_reconciler [] [] [ex_ma, ex_mb, ex_md] [] None"
  let ?m0 = "ex_policy (Some (IntVal 1))"
  let ?ta = "ex_target ''ma'' ''na'' ConditionTrue 0 []"
  let ?tb = "ex_target ''mb'' ''nb'' ConditionFalse 0 []"
  let ?td = "ex_target ''md'' ''nd'' ConditionFalse 0 []"
  let ?X = "reconcile ?r ex_cluster ?m0 ex_world"
  have rt: "resolvedTargets ?r ex_cluster ?m0 = Some [?ta, ?tb, ?td]"
    by code_simp
  have hc: "healthCheckTargets ?r (Spec_UnhealthyConditions ?m0) [?ta, ?tb, ?td] (Spec_NodeStartupTimeout ?m0)
              = ([?ta], [?tb, ?td], [])"
    by code_simp
  have X: "?X = ((fst (fst ?X), snd (fst ?X)), fst (snd ?X), snd (snd ?X))"
    by simp
  have deny: "\<not> isAllowedRemediation (fst (snd ?X))"
    by code_simp
  have ok: "list_all (patchSucceeds (Reconciler_Client ?r)) ([?ta] @ [?tb, ?td])"
    by code_simp
  from restricted_pass_result [OF rt hc X deny ok]
  have "fst ?X = (\<lparr>Requeue = True, RequeueAfter = 0\<rparr>, None)"
    by (simp add: prod_eq_iff)
  with rt deny show ?thesis
    by simp
qed

text \<open>
  C4 as the spec states it has the denied pass ask for a retry after a time. With one
  healthy and two unhealthy targets, \<^verbatim>\<open>maxUnhealthy\<close> 1 and no failing patch, the
  pass returns no error, \<^verbatim>\<open>Requeue\<close> set and no positive \<^verbatim>\<open>RequeueAfter\<close>.
\<close>

theorem restricted_pass_not_timed_counterexample:
  "resolvedTargets (ex_reconciler [] [] [ex_ma, ex_mb, ex_md] [] None) ex_cluster (ex_policy (Some (IntVal 1)))
     = Some [ex_target ''ma'' ''na'' ConditionTrue 0 [], ex_target ''mb'' ''nb'' ConditionFalse 0 [],
             ex_target ''md'' ''nd'' ConditionFalse 0 []]
   \<and> list_all (patchSucceeds (Reconciler_Client (ex_reconciler [] [] [ex_ma, ex_mb, ex_md] [] None)))
        [ex_target ''ma'' ''na'' ConditionTrue 0 [], ex_target ''mb'' ''nb'' ConditionFalse 0 [],
         ex_target ''md'' ''nd'' ConditionFalse 0 []]
   \<and> \<not> isAllowedRemediation
         (fst (snd (reconcile (ex_reconciler [] [] [ex_ma, ex_mb, ex_md] [] None) ex_cluster
                      (ex_policy (Some (IntVal 1))) ex_world)))
   \<and> snd (fst (reconcile (ex_reconciler [] [] [ex_ma, ex_mb, ex_md] [] None) ex_cluster
                  (ex_policy (Some (IntVal 1))) ex_world)) = None
   \<and> Requeue (fst (fst (reconcile (ex_reconciler [] [] [ex_ma, ex_mb, ex_md] [] None) ex_cluster
                  (ex_policy (Some (IntVal 1))) ex_world)))
   \<and> \<not> 0 < RequeueAfter (fst (fst (reconcile (ex_reconciler [] [] [ex_ma, ex_mb, ex_md] [] None) ex_cluster
                  (ex_policy (Some (IntVal 1))) ex_world)))"
  by code_simp

subsection \<open>Marking for remediation\<close>

lemma setCondition_mem: "c \<in> set (setCondition cs c)"
  by (auto simp: setCondition_def list_ex_iff)

lemma setCondition_unique:
  "x \<in> set (setCondition cs c) \<Longrightarrow> Condition_Type x = Condition_Type c \<Longrightarrow> x = c"
  by (auto simp: setCondition_def list_ex_iff split: if_splits)

lemma setCondition_others:
  "x \<in> set cs \<Longrightarrow> Condition_Type x \<noteq> Condition_Type c \<Longrightarrow> x \<in> set (setCondition cs c)"
  by (auto simp: setCondition_def list_ex_iff)

lemma markUnhealthy_conditions:
  "Machine_Status_Conditions (markUnhealthy machine)
     = setCondition (Machine_Status_Conditions machine) remediationCondition"
  by (simp add: markUnhealthy_def MarkFalse_def remediationCondition_def)

lemma markUnhealthy_rest:
  "(markUnhealthy machine)\<lparr>Machine_Status_Conditions := Machine_Status_Conditions machine\<rparr> = machine"
  by (simp add: markUnhealthy_def MarkFalse_def)

lemma reconcile_world_admitted:
  assumes rt: "resolvedTargets r cluster m0 = Some targets"
      and hc: "healthCheckTargets r (Spec_UnhealthyConditions m0) targets (Spec_NodeStartupTimeout m0)
                = (healthy, unhealthy, nct)"
      and rc: "reconcile r cluster m0 w0 = ((res, err), m', w')"
      and admit: "isAllowedRemediation m'"
      and ok: "list_all (patchSucceeds (Reconciler_Client r)) (healthy @ unhealthy)"
  shows "w' = w0\<lparr>Events := Events w0 @ map markedEvent unhealthy,
                 MachinePatches := MachinePatches w0
                   @ map (\<lambda>t. markUnhealthy (Target_Machine t)) unhealthy @ map Target_Machine healthy\<rparr>"
    and "(res, err) = (if minDuration nct > 0 then (\<lparr>Requeue = False, RequeueAfter = minDuration nct\<rparr>, None)
                       else (Result_empty, None))"
proof -
  have m': "m' = evaluatedPolicy cluster m0 targets healthy"
    using reconcile_policy [OF rt hc, of w0] rc by simp
  from admit have a: "isAllowedRemediation (evaluatedPolicy cluster m0 targets healthy)"
    by (simp add: m')
  from ok have oh: "list_all (patchSucceeds (Reconciler_Client r)) healthy"
    and ou: "list_all (patchSucceeds (Reconciler_Client r)) unhealthy"
    by simp_all
  have fu: "firstPatchError ''Failed to patch unhealthy machine status for machine %q'' (Reconciler_Client r)
              unhealthy = None"
    using ou by (simp only: firstPatchError_None_iff)
  have fh: "firstPatchError ''Failed to patch healthy machine status for machine %q'' (Reconciler_Client r)
              healthy = None"
    using oh by (simp only: firstPatchError_None_iff)
  have th: "takeWhile (patchSucceeds (Reconciler_Client r)) healthy = healthy"
    using oh by (rule takeWhile_all)
  note eq = reconcile_admitted [OF rt hc a, of w0, unfolded fu fh th option.case rc]
  from eq show "w' = w0\<lparr>Events := Events w0 @ map markedEvent unhealthy,
                 MachinePatches := MachinePatches w0
                   @ map (\<lambda>t. markUnhealthy (Target_Machine t)) unhealthy @ map Target_Machine healthy\<rparr>"
    by simp
  from eq show "(res, err) = (if minDuration nct > 0 then (\<lparr>Requeue = False, RequeueAfter = minDuration nct\<rparr>, None)
                       else (Result_empty, None))"
    by simp
qed

text \<open>
  C5, as the source has it. In a pass in which every patch of a healthy or unhealthy
  target succeeds, the pass sets the remediation-requested condition on a target's Machine
  if and only if the evaluation classified the target unhealthy and admission was granted:
  with admission granted, the Machines written are those of the unhealthy targets, each with
  the condition set, followed by those of the healthy targets as they were resolved, and
  one normal-severity event is recorded for each unhealthy target, naming it; with
  admission denied, the Machines written are those of the healthy and unhealthy targets
  as they were resolved. The condition set has status False, the waiting-for-remediation
  reason, warning severity and the fixed message; it is the Machine's only condition of
  its type, and setting it changes nothing else of the Machine. A healthy target's
  Machine is written as it was, with whatever conditions it had.
\<close>

theorem remediation_signalling:
  assumes "resolvedTargets r cluster m0 = Some targets"
      and "healthCheckTargets r (Spec_UnhealthyConditions m0) targets (Spec_NodeStartupTimeout m0)
            = (healthy, unhealthy, nct)"
      and "reconcile r cluster m0 w0 = ((res, err), m', w')"
      and "list_all (patchSucceeds (Reconciler_Client r)) (healthy @ unhealthy)"
  shows "MachinePatches w' = MachinePatches w0
            @ (if isAllowedRemediation m'
               then map (\<lambda>t. markUnhealthy (Target_Machine t)) unhealthy @ map Target_Machine healthy
               else map Target_Machine (healthy @ unhealthy))
       \<and> (isAllowedRemediation m'
            \<longrightarrow> Events w' = Events w0
                  @ map (\<lambda>t. \<lparr>Event_Object = ObjectKey_Machine (Target_Machine t),
                               Event_Type = EventTypeNormal, Event_Reason = EventMachineMarkedUnhealthy,
                               Event_Format = ''Machine %v has been marked as unhealthy'',
                               Event_Args = [ArgString (target_string t)]\<rparr>) unhealthy)
       \<and> (\<forall>machine.
             \<lparr>Condition_Type = MachineOwnerRemediatedCondition, Condition_Status = ConditionFalse,
              Condition_Severity = ConditionSeverityWarning, Condition_Reason = WaitingForRemediation,
              Condition_Message = ''MachineHealthCheck failed''\<rparr>
               \<in> set (Machine_Status_Conditions (markUnhealthy machine))
             \<and> (\<forall>c \<in> set (Machine_Status_Conditions (markUnhealthy machine)).
                   Condition_Type c = MachineOwnerRemediatedCondition
                   \<longrightarrow> c = \<lparr>Condition_Type = MachineOwnerRemediatedCondition, Condition_Status = ConditionFalse,
                             Condition_Severity = ConditionSeverityWarning,
                             Condition_Reason = WaitingForRemediation,
                             Condition_Message = ''MachineHealthCheck failed''\<rparr>)
             \<and> (\<forall>c \<in> set (Machine_Status_Conditions machine).
                   Condition_Type c \<noteq> MachineOwnerRemediatedCondition
                   \<longrightarrow> c \<in> set (Machine_Status_Conditions (markUnhealthy machine)))
             \<and> (markUnhealthy machine)\<lparr>Machine_Status_Conditions := Machine_Status_Conditions machine\<rparr>
                 = machine)"
proof -
  have patches: "MachinePatches w' = MachinePatches w0
            @ (if isAllowedRemediation m'
               then map (\<lambda>t. markUnhealthy (Target_Machine t)) unhealthy @ map Target_Machine healthy
               else map Target_Machine (healthy @ unhealthy))"
  proof (cases "isAllowedRemediation m'")
    case True
    with reconcile_world_admitted(1) [OF assms(1-3) True assms(4)] show ?thesis
      by simp
  next
    case False
    have "takeWhile (patchSucceeds (Reconciler_Client r)) (healthy @ unhealthy) = healthy @ unhealthy"
      using assms(4) by (rule takeWhile_all)
    with reconcile_world_denied(3) [OF assms(1-3) False] False show ?thesis
      by simp
  qed
  have events: "isAllowedRemediation m'
            \<longrightarrow> Events w' = Events w0
                  @ map (\<lambda>t. \<lparr>Event_Object = ObjectKey_Machine (Target_Machine t),
                               Event_Type = EventTypeNormal, Event_Reason = EventMachineMarkedUnhealthy,
                               Event_Format = ''Machine %v has been marked as unhealthy'',
                               Event_Args = [ArgString (target_string t)]\<rparr>) unhealthy"
  proof
    assume a: "isAllowedRemediation m'"
    have "markedEvent = (\<lambda>t. \<lparr>Event_Object = ObjectKey_Machine (Target_Machine t),
                               Event_Type = EventTypeNormal, Event_Reason = EventMachineMarkedUnhealthy,
                               Event_Format = ''Machine %v has been marked as unhealthy'',
                               Event_Args = [ArgString (target_string t)]\<rparr>)"
      by (rule ext) (simp add: markedEvent_def)
    with reconcile_world_admitted(1) [OF assms(1-3) a assms(4)]
    show "Events w' = Events w0
                  @ map (\<lambda>t. \<lparr>Event_Object = ObjectKey_Machine (Target_Machine t),
                               Event_Type = EventTypeNormal, Event_Reason = EventMachineMarkedUnhealthy,
                               Event_Format = ''Machine %v has been marked as unhealthy'',
                               Event_Args = [ArgString (target_string t)]\<rparr>) unhealthy"
      by simp
  qed
  let ?c = "\<lparr>Condition_Type = MachineOwnerRemediatedCondition, Condition_Status = ConditionFalse,
              Condition_Severity = ConditionSeverityWarning, Condition_Reason = WaitingForRemediation,
              Condition_Message = ''MachineHealthCheck failed''\<rparr>"
  have c: "remediationCondition = ?c"
    by (simp add: remediationCondition_def)
  have ty: "Condition_Type remediationCondition = MachineOwnerRemediatedCondition"
    by (simp add: remediationCondition_def)
  have mark: "?c \<in> set (Machine_Status_Conditions (markUnhealthy machine))
             \<and> (\<forall>x \<in> set (Machine_Status_Conditions (markUnhealthy machine)).
                   Condition_Type x = MachineOwnerRemediatedCondition \<longrightarrow> x = ?c)
             \<and> (\<forall>x \<in> set (Machine_Status_Conditions machine).
                   Condition_Type x \<noteq> MachineOwnerRemediatedCondition
                   \<longrightarrow> x \<in> set (Machine_Status_Conditions (markUnhealthy machine)))
             \<and> (markUnhealthy machine)\<lparr>Machine_Status_Conditions := Machine_Status_Conditions machine\<rparr>
                 = machine" for machine
    unfolding c [symmetric] markUnhealthy_conditions
    using setCondition_mem [of remediationCondition "Machine_Status_Conditions machine"]
      setCondition_unique [of _ "Machine_Status_Conditions machine" remediationCondition]
      setCondition_others [of _ "Machine_Status_Conditions machine" remediationCondition]
      markUnhealthy_rest [of machine]
    by (simp add: ty)
  show ?thesis
    apply (rule conjI [OF patches])
    apply (rule conjI [OF events])
    apply (rule allI)
    apply (rule mark)
    done
qed

theorem remediation_signalling_witness:
  "resolvedTargets (ex_reconciler [] [] [ex_ma, ex_mb] [] None) ex_cluster (ex_policy (Some (IntVal 1)))
     = Some [ex_target ''ma'' ''na'' ConditionTrue 0 [], ex_target ''mb'' ''nb'' ConditionFalse 0 []]
   \<and> healthCheckTargets (ex_reconciler [] [] [ex_ma, ex_mb] [] None)
       (Spec_UnhealthyConditions (ex_policy (Some (IntVal 1))))
       [ex_target ''ma'' ''na'' ConditionTrue 0 [], ex_target ''mb'' ''nb'' ConditionFalse 0 []]
       (Spec_NodeStartupTimeout (ex_policy (Some (IntVal 1))))
     = ([ex_target ''ma'' ''na'' ConditionTrue 0 []], [ex_target ''mb'' ''nb'' ConditionFalse 0 []], [])
   \<and> isAllowedRemediation
         (fst (snd (reconcile (ex_reconciler [] [] [ex_ma, ex_mb] [] None) ex_cluster
                      (ex_policy (Some (IntVal 1))) ex_world)))
   \<and> MachinePatches (snd (snd (reconcile (ex_reconciler [] [] [ex_ma, ex_mb] [] None) ex_cluster
                      (ex_policy (Some (IntVal 1))) ex_world)))
       = [markUnhealthy ex_mb, ex_ma]
   \<and> map Event_Reason (Events (snd (snd (reconcile (ex_reconciler [] [] [ex_ma, ex_mb] [] None) ex_cluster
                      (ex_policy (Some (IntVal 1))) ex_world))))
       = [EventMachineMarkedUnhealthy]"
proof -
  let ?r = "ex_reconciler [] [] [ex_ma, ex_mb] [] None"
  let ?m0 = "ex_policy (Some (IntVal 1))"
  let ?ta = "ex_target ''ma'' ''na'' ConditionTrue 0 []"
  let ?tb = "ex_target ''mb'' ''nb'' ConditionFalse 0 []"
  let ?X = "reconcile ?r ex_cluster ?m0 ex_world"
  have rt: "resolvedTargets ?r ex_cluster ?m0 = Some [?ta, ?tb]"
    by code_simp
  have hc: "healthCheckTargets ?r (Spec_UnhealthyConditions ?m0) [?ta, ?tb] (Spec_NodeStartupTimeout ?m0)
              = ([?ta], [?tb], [])"
    by code_simp
  have X: "?X = ((fst (fst ?X), snd (fst ?X)), fst (snd ?X), snd (snd ?X))"
    by simp
  have admit: "isAllowedRemediation (fst (snd ?X))"
    by code_simp
  have ok: "list_all (patchSucceeds (Reconciler_Client ?r)) ([?ta] @ [?tb])"
    by code_simp
  have ta: "Target_Machine ?ta = ex_ma" and tb: "Target_Machine ?tb = ex_mb"
    by code_simp+
  from remediation_signalling [OF rt hc X ok] admit
  have "MachinePatches (snd (snd ?X)) = MachinePatches ex_world @ [markUnhealthy (Target_Machine ?tb), Target_Machine ?ta]"
    and "map Event_Reason (Events (snd (snd ?X))) = map Event_Reason (Events ex_world) @ [EventMachineMarkedUnhealthy]"
    by simp_all
  then have "MachinePatches (snd (snd ?X)) = [markUnhealthy ex_mb, ex_ma]"
    and "map Event_Reason (Events (snd (snd ?X))) = [EventMachineMarkedUnhealthy]"
    by (simp_all only: ta tb) (simp_all add: ex_world_def)
  with rt hc admit show ?thesis
    by simp
qed

text \<open>
  C5 as the spec states it has a Machine carry the condition after the patches exactly when
  its target is unhealthy and admission was granted. First pass: a healthy target whose
  Machine came with the condition is written with it, in an admitted pass without errors.
  Second pass: of two unhealthy targets in an admitted pass, the patch of the first fails,
  and the second, whose Machine has no such condition, is never written.
\<close>

theorem remediation_condition_iff_counterexample:
  "resolvedTargets (ex_reconciler [] [] [ex_ma_marked, ex_mb] [] None) ex_cluster (ex_policy (Some (IntVal 1)))
     = Some [ex_target ''ma'' ''na'' ConditionTrue 0 [remediationCondition],
             ex_target ''mb'' ''nb'' ConditionFalse 0 []]
   \<and> healthCheckTargets (ex_reconciler [] [] [ex_ma_marked, ex_mb] [] None)
       (Spec_UnhealthyConditions (ex_policy (Some (IntVal 1))))
       [ex_target ''ma'' ''na'' ConditionTrue 0 [remediationCondition],
        ex_target ''mb'' ''nb'' ConditionFalse 0 []]
       (Spec_NodeStartupTimeout (ex_policy (Some (IntVal 1))))
     = ([ex_target ''ma'' ''na'' ConditionTrue 0 [remediationCondition]],
        [ex_target ''mb'' ''nb'' ConditionFalse 0 []], [])
   \<and> Target_Machine (ex_target ''ma'' ''na'' ConditionTrue 0 [remediationCondition]) = ex_ma_marked
   \<and> isAllowedRemediation
         (fst (snd (reconcile (ex_reconciler [] [] [ex_ma_marked, ex_mb] [] None) ex_cluster
                      (ex_policy (Some (IntVal 1))) ex_world)))
   \<and> snd (fst (reconcile (ex_reconciler [] [] [ex_ma_marked, ex_mb] [] None) ex_cluster
                  (ex_policy (Some (IntVal 1))) ex_world)) = None
   \<and> MachinePatches (snd (snd (reconcile (ex_reconciler [] [] [ex_ma_marked, ex_mb] [] None) ex_cluster
                      (ex_policy (Some (IntVal 1))) ex_world)))
       = [markUnhealthy ex_mb, ex_ma_marked]
   \<and> hasRemediationCondition ex_ma_marked
   \<and> resolvedTargets (ex_reconciler [] [] [ex_mb, ex_md] [(''default'', ''mb'')] None) ex_cluster
         (ex_policy (Some (IntVal 2)))
     = Some [ex_target ''mb'' ''nb'' ConditionFalse 0 [], ex_target ''md'' ''nd'' ConditionFalse 0 []]
   \<and> healthCheckTargets (ex_reconciler [] [] [ex_mb, ex_md] [(''default'', ''mb'')] None)
       (Spec_UnhealthyConditions (ex_policy (Some (IntVal 2))))
       [ex_target ''mb'' ''nb'' ConditionFalse 0 [], ex_target ''md'' ''nd'' ConditionFalse 0 []]
       (Spec_NodeStartupTimeout (ex_policy (Some (IntVal 2))))
     = ([], [ex_target ''mb'' ''nb'' ConditionFalse 0 [], ex_target ''md'' ''nd'' ConditionFalse 0 []], [])
   \<and> isAllowedRemediation
         (fst (snd (reconcile (ex_reconciler [] [] [ex_mb, ex_md] [(''default'', ''mb'')] None) ex_cluster
                      (ex_policy (Some (IntVal 2))) ex_world)))
   \<and> MachinePatches (snd (snd (reconcile (ex_reconciler [] [] [ex_mb, ex_md] [(''default'', ''mb'')] None)
                      ex_cluster (ex_policy (Some (IntVal 2))) ex_world)))
       = []
   \<and> \<not> hasRemediationCondition ex_md"
  by code_simp

subsection \<open>Objects that are not found\<close>

text \<open>
  C6, as the source has it. When the policy object is not found in the store, the pass
  returns success with no error, records no event and patches nothing. When the policy is
  found and its cluster is not, the pass returns the error of the lookup, wrapped with the
  names of the cluster and the policy; it too records no event and patches nothing.
\<close>

theorem Reconcile_not_found:
  fixes r :: "'sel MachineHealthCheckReconciler"
  shows "(Client_GetMHCErr (Reconciler_Client r) = None
          \<and> find (\<lambda>m. ObjectKey_MHC m = req) (Client_MachineHealthChecks (Reconciler_Client r)) = None
          \<longrightarrow> Reconcile r req w0 = ((Result_empty, None), w0))
       \<and> (Client_GetMHCErr (Reconciler_Client r) = None
          \<and> find (\<lambda>m. ObjectKey_MHC m = req) (Client_MachineHealthChecks (Reconciler_Client r)) = Some m
          \<and> Client_GetClusterErr (Reconciler_Client r) = None
          \<and> find (\<lambda>cl. ObjectKey_Cluster cl = (MHC_Namespace m, Spec_ClusterName m))
               (Client_Clusters (Reconciler_Client r)) = None
          \<longrightarrow> Reconcile r req w0
                = ((Result_empty,
                    Some (Wrapped ''failed to get Cluster %q for MachineHealthCheck %q in namespace %q''
                            [Spec_ClusterName m, MHC_Name m, MHC_Namespace m] NotFound)), w0))"
proof (intro conjI impI)
  assume "Client_GetMHCErr (Reconciler_Client r) = None
          \<and> find (\<lambda>m. ObjectKey_MHC m = req) (Client_MachineHealthChecks (Reconciler_Client r)) = None"
  then have "Client_Get_MHC (Reconciler_Client r) req = Inl NotFound"
    by (simp add: Client_Get_MHC_def)
  then show "Reconcile r req w0 = ((Result_empty, None), w0)"
    by (simp add: Reconcile_def IsNotFound_def)
next
  assume a: "Client_GetMHCErr (Reconciler_Client r) = None
          \<and> find (\<lambda>m. ObjectKey_MHC m = req) (Client_MachineHealthChecks (Reconciler_Client r)) = Some m
          \<and> Client_GetClusterErr (Reconciler_Client r) = None
          \<and> find (\<lambda>cl. ObjectKey_Cluster cl = (MHC_Namespace m, Spec_ClusterName m))
               (Client_Clusters (Reconciler_Client r)) = None"
  then have policy: "Client_Get_MHC (Reconciler_Client r) req = Inr m"
    by (simp add: Client_Get_MHC_def)
  from a have cluster: "GetClusterByName (Reconciler_Client r) (MHC_Namespace m) (Spec_ClusterName m) = Inl NotFound"
    by (simp add: GetClusterByName_def)
  show "Reconcile r req w0
          = ((Result_empty,
              Some (Wrapped ''failed to get Cluster %q for MachineHealthCheck %q in namespace %q''
                      [Spec_ClusterName m, MHC_Name m, MHC_Namespace m] NotFound)), w0)"
    by (simp add: Reconcile_def policy cluster)
qed

theorem Reconcile_not_found_witness:
  "Reconcile (ex_reconciler [] [ex_cluster] [ex_ma, ex_mb] [] None) (''default'', ''mhc1'') ex_world
     = ((Result_empty, None), ex_world)
   \<and> Reconcile (ex_reconciler [ex_policy (Some (IntVal 1))] [] [ex_ma, ex_mb] [] None) (''default'', ''mhc1'') ex_world
     = ((Result_empty,
         Some (Wrapped ''failed to get Cluster %q for MachineHealthCheck %q in namespace %q''
                 [''c1'', ''mhc1'', ''default''] NotFound)), ex_world)"
proof -
  let ?r1 = "ex_reconciler [] [ex_cluster] [ex_ma, ex_mb] [] None"
  let ?r2 = "ex_reconciler [ex_policy (Some (IntVal 1))] [] [ex_ma, ex_mb] [] None"
  let ?m = "ex_policy (Some (IntVal 1))"
  have a: "Client_GetMHCErr (Reconciler_Client ?r1) = None
          \<and> find (\<lambda>m. ObjectKey_MHC m = (''default'', ''mhc1'')) (Client_MachineHealthChecks (Reconciler_Client ?r1)) = None"
    by (simp add: ex_reconciler_def)
  have b: "Client_GetMHCErr (Reconciler_Client ?r2) = None
          \<and> find (\<lambda>m. ObjectKey_MHC m = (''default'', ''mhc1'')) (Client_MachineHealthChecks (Reconciler_Client ?r2)) = Some ?m
          \<and> Client_GetClusterErr (Reconciler_Client ?r2) = None
          \<and> find (\<lambda>cl. ObjectKey_Cluster cl = (MHC_Namespace ?m, Spec_ClusterName ?m))
               (Client_Clusters (Reconciler_Client ?r2)) = None"
    by (simp add: ex_reconciler_def ex_policy_def ObjectKey_MHC_def)
  have n: "[Spec_ClusterName ?m, MHC_Name ?m, MHC_Namespace ?m] = [''c1'', ''mhc1'', ''default'']"
    by (simp add: ex_policy_def)
  from Reconcile_not_found [where r = ?r1 and req = "(''default'', ''mhc1'')" and ?w0.0 = ex_world,
        THEN conjunct1, rule_format, OF a]
    Reconcile_not_found [where r = ?r2 and req = "(''default'', ''mhc1'')" and m = ?m and ?w0.0 = ex_world,
        THEN conjunct2, rule_format, OF b]
  show ?thesis
    unfolding n by (rule conjI)
qed

text \<open>
  C6 as the spec states it has the pass succeed silently when the cluster is not found.
  With the policy in the store and no cluster at all, the pass returns an error.
\<close>

theorem Reconcile_cluster_not_found_counterexample:
  "find (\<lambda>m. ObjectKey_MHC m = (''default'', ''mhc1''))
      (Client_MachineHealthChecks (Reconciler_Client (ex_reconciler [ex_policy (Some (IntVal 1))] [] [ex_ma, ex_mb] [] None)))
     = Some (ex_policy (Some (IntVal 1)))
   \<and> Client_Clusters (Reconciler_Client (ex_reconciler [ex_policy (Some (IntVal 1))] [] [ex_ma, ex_mb] [] None)) = []
   \<and> snd (fst (Reconcile (ex_reconciler [ex_policy (Some (IntVal 1))] [] [ex_ma, ex_mb] [] None)
                  (''default'', ''mhc1'') ex_world))
     = Some (Wrapped ''failed to get Cluster %q for MachineHealthCheck %q in namespace %q''
               [''c1'', ''mhc1'', ''default''] NotFound)"
  by code_simp

subsection \<open>The status of the policy\<close>

lemma sint_of_nat_32:
  assumes "n < 2 ^ 31"
  shows "sint (of_nat n :: 32 word) = int n"
proof -
  have "sint (of_nat n :: 32 word) = signed_take_bit 31 (int n)"
    by (simp add: signed_of_nat)
  also have "\<dots> = int n"
    using assms by (intro signed_take_bit_int_eq_self) simp_all
  finally show ?thesis .
qed

lemma resolvedTargets_status:
  "resolvedTargets r cluster
      (m0\<lparr>Status_ExpectedMachines := e, Status_CurrentHealthy := h, Status_Targets := ts\<rparr>)
     = resolvedTargets r cluster m0"
  by (simp add: resolvedTargets_def getTargetsFromMHC_def cong: sum.case_cong option.case_cong)

lemma evaluatedPolicy_status:
  "evaluatedPolicy cluster
      (m0\<lparr>Status_ExpectedMachines := e, Status_CurrentHealthy := h, Status_Targets := ts\<rparr>) targets healthy
     = evaluatedPolicy cluster m0 targets healthy"
  by (simp add: evaluatedPolicy_def)

text \<open>
  C7. In every pass that reaches the health evaluation, the policy's
  \<^verbatim>\<open>status.expectedMachines\<close> is the number of targets resolved in that pass (as an
  \<^verbatim>\<open>int32\<close>, which is that number itself below \<open>2\<^sup>3\<^sup>1\<close> targets), and
  \<^verbatim>\<open>status.Targets\<close> lists the names of those targets' Machines in order. The values
  are computed from the targets alone: whatever status the policy came in with, the pass
  resolves the same targets and leaves the same policy.
\<close>

theorem expectedMachines_recomputed:
  assumes "resolvedTargets r cluster m0 = Some targets"
      and "reconcile r cluster m0 w0 = ((res, err), m', w')"
  shows "Status_ExpectedMachines m' = of_nat (length targets)
       \<and> (length targets < 2 ^ 31 \<longrightarrow> sint (Status_ExpectedMachines m') = int (length targets))
       \<and> Status_Targets m' = map (\<lambda>t. Machine_Name (Target_Machine t)) targets
       \<and> (\<forall>e h ts.
             resolvedTargets r cluster
                (m0\<lparr>Status_ExpectedMachines := e, Status_CurrentHealthy := h, Status_Targets := ts\<rparr>)
               = Some targets
             \<and> fst (snd (reconcile r cluster
                  (m0\<lparr>Status_ExpectedMachines := e, Status_CurrentHealthy := h, Status_Targets := ts\<rparr>) w0))
               = m')"
proof -
  obtain healthy unhealthy nct where
    hc: "healthCheckTargets r (Spec_UnhealthyConditions m0) targets (Spec_NodeStartupTimeout m0)
          = (healthy, unhealthy, nct)"
    by (cases "healthCheckTargets r (Spec_UnhealthyConditions m0) targets (Spec_NodeStartupTimeout m0)") auto
  have m': "m' = evaluatedPolicy cluster m0 targets healthy"
    using reconcile_policy [OF assms(1) hc, of w0] assms(2) by simp
  have e: "Status_ExpectedMachines m' = of_nat (length targets)"
    and t: "Status_Targets m' = map (\<lambda>t. Machine_Name (Target_Machine t)) targets"
    by (simp_all add: m' evaluatedPolicy_def)
  have s: "length targets < 2 ^ 31 \<longrightarrow> sint (Status_ExpectedMachines m') = int (length targets)"
    unfolding e by (rule impI) (rule sint_of_nat_32)
  have prior: "resolvedTargets r cluster
                (m0\<lparr>Status_ExpectedMachines := e, Status_CurrentHealthy := h, Status_Targets := ts\<rparr>)
               = Some targets
             \<and> fst (snd (reconcile r cluster
                  (m0\<lparr>Status_ExpectedMachines := e, Status_CurrentHealthy := h, Status_Targets := ts\<rparr>) w0))
               = m'" for e h ts
  proof -
    let ?m = "m0\<lparr>Status_ExpectedMachines := e, Status_CurrentHealthy := h, Status_Targets := ts\<rparr>"
    have rt: "resolvedTargets r cluster ?m = Some targets"
      by (simp only: resolvedTargets_status assms(1))
    have hc': "healthCheckTargets r (Spec_UnhealthyConditions ?m) targets (Spec_NodeStartupTimeout ?m)
          = (healthy, unhealthy, nct)"
      using hc by simp
    from reconcile_policy [OF rt hc', of w0] rt show ?thesis
      by (simp only: evaluatedPolicy_status m')
  qed
  show ?thesis
    apply (rule conjI [OF e])
    apply (rule conjI [OF s])
    apply (rule conjI [OF t])
    apply (intro allI)
    apply (rule prior)
    done
qed

theorem expectedMachines_recomputed_witness:
  "resolvedTargets (ex_reconciler [] [] [ex_ma, ex_mb, ex_mc] [] None) ex_cluster (ex_policy (Some (IntVal 1)))
     = Some [ex_target ''ma'' ''na'' ConditionTrue 0 [], ex_target ''mb'' ''nb'' ConditionFalse 0 [],
             ex_target ''mc'' ''nc'' ConditionFalse 900 []]
   \<and> sint (Status_ExpectedMachines
        (fst (snd (reconcile (ex_reconciler [] [] [ex_ma, ex_mb, ex_mc] [] None) ex_cluster
                     (ex_policy (Some (IntVal 1))) ex_world)))) = 3
   \<and> Status_Targets
        (fst (snd (reconcile (ex_reconciler [] [] [ex_ma, ex_mb, ex_mc] [] None) ex_cluster
                     (ex_policy (Some (IntVal 1))) ex_world))) = [''ma'', ''mb'', ''mc'']
   \<and> fst (snd (reconcile (ex_reconciler [] [] [ex_ma, ex_mb, ex_mc] [] None) ex_cluster
                 ((ex_policy (Some (IntVal 1)))\<lparr>Status_ExpectedMachines := 7, Status_CurrentHealthy := 5,
                                                 Status_Targets := [''gone'']\<rparr>) ex_world))
      = fst (snd (reconcile (ex_reconciler [] [] [ex_ma, ex_mb, ex_mc] [] None) ex_cluster
                 (ex_policy (Some (IntVal 1))) ex_world))"
proof -
  let ?r = "ex_reconciler [] [] [ex_ma, ex_mb, ex_mc] [] None"
  let ?m0 = "ex_policy (Some (IntVal 1))"
  let ?ts = "[ex_target ''ma'' ''na'' ConditionTrue 0 [], ex_target ''mb'' ''nb'' ConditionFalse 0 [],
              ex_target ''mc'' ''nc'' ConditionFalse 900 []]"
  let ?X = "reconcile ?r ex_cluster ?m0 ex_world"
  have rt: "resolvedTargets ?r ex_cluster ?m0 = Some ?ts"
    by code_simp
  have X: "?X = ((fst (fst ?X), snd (fst ?X)), fst (snd ?X), snd (snd ?X))"
    by simp
  have names: "map (\<lambda>t. Machine_Name (Target_Machine t)) ?ts = [''ma'', ''mb'', ''mc'']"
    by code_simp
  note em = expectedMachines_recomputed [OF rt X]
  from em have "sint (Status_ExpectedMachines (fst (snd ?X))) = int (length ?ts)"
    by simp
  moreover from em have "Status_Targets (fst (snd ?X)) = map (\<lambda>t. Machine_Name (Target_Machine t)) ?ts"
    by blast
  moreover from em have "fst (snd (reconcile ?r ex_cluster
        (?m0\<lparr>Status_ExpectedMachines := 7, Status_CurrentHealthy := 5, Status_Targets := [''gone'']\<rparr>) ex_world))
      = fst (snd ?X)"
    by blast
  ultimately show ?thesis
    using rt by (simp only: names) simp
qed

subsection \<open>Pending targets at the admission check\<close>

lemma classified_count:
  "length xs = length (filter (\<lambda>t. f t = Healthy) xs) + length (filter (\<lambda>t. f t = Unhealthy) xs)
               + length (nextCheckTimesOf now (map f xs))"
proof (induction xs)
  case Nil
  show ?case by simp
next
  case (Cons x xs)
  then show ?case
    by (cases "f x") simp_all
qed

lemma pending_has_nextCheck:
  "t \<in> set xs \<Longrightarrow> f t = Pending d \<Longrightarrow> 0 < length (nextCheckTimesOf now (map f xs))"
proof (induction xs)
  case Nil
  then show ?case by simp
next
  case (Cons x xs)
  then show ?case
    by (cases "f x") auto
qed

lemma healthCheckTargets_count:
  assumes "healthCheckTargets r rules targets timeout = (healthy, unhealthy, nct)"
  shows "length targets = length healthy + length unhealthy + length nct"
    and "nct = nextCheckTimesOf (Reconciler_Now r) (map (classify (Reconciler_Now r) timeout rules) targets)"
proof -
  from assms show n: "nct = nextCheckTimesOf (Reconciler_Now r) (map (classify (Reconciler_Now r) timeout rules) targets)"
    by (simp add: healthCheckTargets_def Let_def)
  from classified_count [of targets "classify (Reconciler_Now r) timeout rules" "Reconciler_Now r"]
  show "length targets = length healthy + length unhealthy + length nct"
    unfolding healthCheckTargets_filter [OF assms] n .
qed

lemma reconcile_world_admitted_any:
  assumes rt: "resolvedTargets r cluster m0 = Some targets"
      and hc: "healthCheckTargets r (Spec_UnhealthyConditions m0) targets (Spec_NodeStartupTimeout m0)
                = (healthy, unhealthy, nct)"
      and rc: "reconcile r cluster m0 w0 = ((res, err), m', w')"
      and admit: "isAllowedRemediation m'"
  shows "Events w' = Events w0 @ map markedEvent (takeWhile (patchSucceeds (Reconciler_Client r)) unhealthy)"
    and "MachinePatches w' = MachinePatches w0
           @ map (\<lambda>t. markUnhealthy (Target_Machine t)) (takeWhile (patchSucceeds (Reconciler_Client r)) unhealthy)
           @ (if list_all (patchSucceeds (Reconciler_Client r)) unhealthy
              then map Target_Machine (takeWhile (patchSucceeds (Reconciler_Client r)) healthy) else [])"
proof -
  have m': "m' = evaluatedPolicy cluster m0 targets healthy"
    using reconcile_policy [OF rt hc, of w0] rc by simp
  from admit have a: "isAllowedRemediation (evaluatedPolicy cluster m0 targets healthy)"
    by (simp add: m')
  note eq = reconcile_admitted [OF rt hc a, of w0, unfolded rc]
  let ?fu = "firstPatchError ''Failed to patch unhealthy machine status for machine %q'' (Reconciler_Client r)
               unhealthy"
  have both: "Events w' = Events w0 @ map markedEvent (takeWhile (patchSucceeds (Reconciler_Client r)) unhealthy)
    \<and> MachinePatches w' = MachinePatches w0
           @ map (\<lambda>t. markUnhealthy (Target_Machine t)) (takeWhile (patchSucceeds (Reconciler_Client r)) unhealthy)
           @ (if list_all (patchSucceeds (Reconciler_Client r)) unhealthy
              then map Target_Machine (takeWhile (patchSucceeds (Reconciler_Client r)) healthy) else [])"
  proof (cases ?fu)
    case None
    then have all: "list_all (patchSucceeds (Reconciler_Client r)) unhealthy"
      by (simp only: firstPatchError_None_iff)
    then have tw: "takeWhile (patchSucceeds (Reconciler_Client r)) unhealthy = unhealthy"
      by (rule takeWhile_all)
    from eq None have "w' = w0\<lparr>Events := Events w0 @ map markedEvent unhealthy,
              MachinePatches := MachinePatches w0
                @ map (\<lambda>t. markUnhealthy (Target_Machine t)) unhealthy
                @ map Target_Machine (takeWhile (patchSucceeds (Reconciler_Client r)) healthy)\<rparr>"
      by simp
    then show ?thesis
      by (simp add: tw all)
  next
    case (Some e)
    then have nall: "\<not> list_all (patchSucceeds (Reconciler_Client r)) unhealthy"
      using firstPatchError_None_iff [of "''Failed to patch unhealthy machine status for machine %q''"
          "Reconciler_Client r" unhealthy]
      by simp
    from eq Some have "w' = w0\<lparr>Events := Events w0 @ map markedEvent (takeWhile (patchSucceeds (Reconciler_Client r)) unhealthy),
              MachinePatches := MachinePatches w0
                @ map (\<lambda>t. markUnhealthy (Target_Machine t))
                    (takeWhile (patchSucceeds (Reconciler_Client r)) unhealthy)\<rparr>"
      by simp
    then show ?thesis
      by (simp add: nall)
  qed
  from both show "Events w' = Events w0 @ map markedEvent (takeWhile (patchSucceeds (Reconciler_Client r)) unhealthy)"
    by (rule conjunct1)
  from both show "MachinePatches w' = MachinePatches w0
           @ map (\<lambda>t. markUnhealthy (Target_Machine t)) (takeWhile (patchSucceeds (Reconciler_Client r)) unhealthy)
           @ (if list_all (patchSucceeds (Reconciler_Client r)) unhealthy
              then map Target_Machine (takeWhile (patchSucceeds (Reconciler_Client r)) healthy) else [])"
    by (rule conjunct2)
qed

text \<open>
  C10. The unhealthy count of the admission check is the \<^verbatim>\<open>int32\<close> difference of
  \<^verbatim>\<open>Status.ExpectedMachines\<close>, the number of targets, and
  \<^verbatim>\<open>Status.CurrentHealthy\<close>, the number of targets classified Healthy. It is the
  number of targets classified Unhealthy plus the number of Pending targets, so that in a
  pass with a Pending target (and fewer than \<open>2\<^sup>3\<^sup>1\<close> targets) it is strictly greater
  than the number of targets classified Unhealthy, and it is this larger number that the
  admission check compares with the resolved \<^verbatim>\<open>maxUnhealthy\<close>. The pass acts on
  that comparison: when the resolved bound is below the number of Unhealthy plus Pending
  targets, it records the restriction event and writes the targets' Machines unmarked,
  even where the Unhealthy targets alone are within the bound; when the bound is not
  below that number, it marks the Unhealthy targets and records their events.
\<close>

theorem pending_counts_toward_unhealthy:
  assumes "resolvedTargets r cluster m0 = Some targets"
      and "healthCheckTargets r (Spec_UnhealthyConditions m0) targets (Spec_NodeStartupTimeout m0)
            = (healthy, unhealthy, nct)"
      and "reconcile r cluster m0 w0 = ((res, err), m', w')"
      and "length targets < 2 ^ 31"
      and "t \<in> set targets"
      and "classify (Reconciler_Now r) (Spec_NodeStartupTimeout m0) (Spec_UnhealthyConditions m0) t = Pending d"
  shows "sint (Status_CurrentHealthy m')
           = int (length (filter (\<lambda>t. classify (Reconciler_Now r) (Spec_NodeStartupTimeout m0)
                                        (Spec_UnhealthyConditions m0) t = Healthy) targets))
       \<and> sint (Status_ExpectedMachines m' - Status_CurrentHealthy m')
           = int (length unhealthy) + int (length nct)
       \<and> int (length unhealthy) < sint (Status_ExpectedMachines m' - Status_CurrentHealthy m')
       \<and> (\<forall>v resolvedMax.
             Spec_MaxUnhealthy m0 = Some v
             \<longrightarrow> GetValueFromIntOrPercent (Some v) (int (length targets)) False = Inr resolvedMax
             \<longrightarrow> (isAllowedRemediation m' \<longleftrightarrow> int (length unhealthy) + int (length nct) \<le> resolvedMax))
       \<and> (\<forall>v resolvedMax.
             Spec_MaxUnhealthy m0 = Some v
             \<longrightarrow> GetValueFromIntOrPercent (Some v) (int (length targets)) False = Inr resolvedMax
             \<longrightarrow> resolvedMax < int (length unhealthy) + int (length nct)
             \<longrightarrow> Events w' = Events w0 @ [restrictedEvent m' (length targets)]
                \<and> MachinePatches w' = MachinePatches w0
                     @ map Target_Machine (takeWhile (patchSucceeds (Reconciler_Client r)) (healthy @ unhealthy))
                \<and> (list_all (patchSucceeds (Reconciler_Client r)) (healthy @ unhealthy)
                     \<longrightarrow> err = None \<and> res = \<lparr>Requeue = True, RequeueAfter = 0\<rparr>))
       \<and> (\<forall>v resolvedMax.
             Spec_MaxUnhealthy m0 = Some v
             \<longrightarrow> GetValueFromIntOrPercent (Some v) (int (length targets)) False = Inr resolvedMax
             \<longrightarrow> int (length unhealthy) + int (length nct) \<le> resolvedMax
             \<longrightarrow> Events w' = Events w0
                     @ map markedEvent (takeWhile (patchSucceeds (Reconciler_Client r)) unhealthy)
                \<and> MachinePatches w' = MachinePatches w0
                     @ map (\<lambda>t. markUnhealthy (Target_Machine t))
                         (takeWhile (patchSucceeds (Reconciler_Client r)) unhealthy)
                     @ (if list_all (patchSucceeds (Reconciler_Client r)) unhealthy
                        then map Target_Machine (takeWhile (patchSucceeds (Reconciler_Client r)) healthy)
                        else []))"
proof -
  have m': "m' = evaluatedPolicy cluster m0 targets healthy"
    using reconcile_policy [OF assms(1,2), of w0] assms(3) by simp
  note cnt = healthCheckTargets_count [OF assms(2)]
  have hl: "length healthy < 2 ^ 31" and hle: "length healthy \<le> length targets"
    using cnt(1) assms(4) by simp_all
  have E: "Status_ExpectedMachines m' = of_nat (length targets)"
    and H: "Status_CurrentHealthy m' = of_nat (length healthy)"
    and S: "Spec_MaxUnhealthy m' = Spec_MaxUnhealthy m0"
    by (simp_all add: m' evaluatedPolicy_def)
  have sE: "sint (Status_ExpectedMachines m') = int (length targets)"
    unfolding E using assms(4) by (rule sint_of_nat_32)
  have sH: "sint (Status_CurrentHealthy m') = int (length healthy)"
    unfolding H using hl by (rule sint_of_nat_32)
  have c1: "sint (Status_CurrentHealthy m')
           = int (length (filter (\<lambda>t. classify (Reconciler_Now r) (Spec_NodeStartupTimeout m0)
                                        (Spec_UnhealthyConditions m0) t = Healthy) targets))"
    unfolding sH healthCheckTargets_filter(1) [OF assms(2)] ..
  have "sint (Status_ExpectedMachines m' - Status_CurrentHealthy m')
          = sint (Status_ExpectedMachines m') - sint (Status_CurrentHealthy m')"
    using hle by (intro sint_sub_in_range) (simp_all add: sE sH)
  then have c2: "sint (Status_ExpectedMachines m' - Status_CurrentHealthy m')
           = int (length unhealthy) + int (length nct)"
    using cnt(1) by (simp add: sE sH)
  have "0 < length nct"
    unfolding cnt(2) using assms(5,6) by (rule pending_has_nextCheck)
  with c2 have c3: "int (length unhealthy) < sint (Status_ExpectedMachines m' - Status_CurrentHealthy m')"
    by simp
  have c4: "isAllowedRemediation m' \<longleftrightarrow> int (length unhealthy) + int (length nct) \<le> resolvedMax"
    if "Spec_MaxUnhealthy m0 = Some v"
      and "GetValueFromIntOrPercent (Some v) (int (length targets)) False = Inr resolvedMax"
    for v resolvedMax
    using that by (simp add: isAllowedRemediation_def S sE c2)
  have c5: "Events w' = Events w0 @ [restrictedEvent m' (length targets)]
                \<and> MachinePatches w' = MachinePatches w0
                     @ map Target_Machine (takeWhile (patchSucceeds (Reconciler_Client r)) (healthy @ unhealthy))
                \<and> (list_all (patchSucceeds (Reconciler_Client r)) (healthy @ unhealthy)
                     \<longrightarrow> err = None \<and> res = \<lparr>Requeue = True, RequeueAfter = 0\<rparr>)"
    if "Spec_MaxUnhealthy m0 = Some v"
      and "GetValueFromIntOrPercent (Some v) (int (length targets)) False = Inr resolvedMax"
      and "resolvedMax < int (length unhealthy) + int (length nct)"
    for v resolvedMax
  proof -
    from c4 [OF that(1,2)] that(3) have deny: "\<not> isAllowedRemediation m'"
      by simp
    note w = reconcile_world_denied [OF assms(1-3) deny]
    have ev: "Events w' = Events w0 @ [restrictedEvent m' (length targets)]"
      and mp: "MachinePatches w' = MachinePatches w0
                     @ map Target_Machine (takeWhile (patchSucceeds (Reconciler_Client r)) (healthy @ unhealthy))"
      by (simp_all add: w(3))
    have ok: "list_all (patchSucceeds (Reconciler_Client r)) (healthy @ unhealthy)
                     \<longrightarrow> err = None \<and> res = \<lparr>Requeue = True, RequeueAfter = 0\<rparr>"
    proof
      assume "list_all (patchSucceeds (Reconciler_Client r)) (healthy @ unhealthy)"
      then have "firstPatchError ''Failed to patch machine status for machine %q'' (Reconciler_Client r)
                   (healthy @ unhealthy) = None"
        by (simp only: firstPatchError_None_iff)
      with w(2) show "err = None \<and> res = \<lparr>Requeue = True, RequeueAfter = 0\<rparr>"
        by simp
    qed
    show ?thesis
      by (rule conjI [OF ev conjI [OF mp ok]])
  qed
  have c6: "Events w' = Events w0
                     @ map markedEvent (takeWhile (patchSucceeds (Reconciler_Client r)) unhealthy)
                \<and> MachinePatches w' = MachinePatches w0
                     @ map (\<lambda>t. markUnhealthy (Target_Machine t))
                         (takeWhile (patchSucceeds (Reconciler_Client r)) unhealthy)
                     @ (if list_all (patchSucceeds (Reconciler_Client r)) unhealthy
                        then map Target_Machine (takeWhile (patchSucceeds (Reconciler_Client r)) healthy)
                        else [])"
    if "Spec_MaxUnhealthy m0 = Some v"
      and "GetValueFromIntOrPercent (Some v) (int (length targets)) False = Inr resolvedMax"
      and "int (length unhealthy) + int (length nct) \<le> resolvedMax"
    for v resolvedMax
  proof -
    from c4 [OF that(1,2)] that(3) have admit: "isAllowedRemediation m'"
      by simp
    show ?thesis
      by (rule conjI [OF reconcile_world_admitted_any [OF assms(1-3) admit]])
  qed
  show ?thesis
    apply (rule conjI [OF c1])
    apply (rule conjI [OF c2])
    apply (rule conjI [OF c3])
    apply (rule conjI)
     apply (intro allI impI)
     apply (rule c4)
      apply assumption+
    apply (rule conjI)
     apply (intro allI impI)
     apply (rule c5)
       apply assumption+
    apply (intro allI impI)
    apply (rule c6)
      apply assumption+
    done
qed


theorem pending_counts_toward_unhealthy_witness:
  "resolvedTargets (ex_reconciler [] [] [ex_ma, ex_mb, ex_mc] [] None) ex_cluster (ex_policy (Some (IntVal 1)))
     = Some [ex_target ''ma'' ''na'' ConditionTrue 0 [], ex_target ''mb'' ''nb'' ConditionFalse 0 [],
             ex_target ''mc'' ''nc'' ConditionFalse 900 []]
   \<and> healthCheckTargets (ex_reconciler [] [] [ex_ma, ex_mb, ex_mc] [] None)
       (Spec_UnhealthyConditions (ex_policy (Some (IntVal 1))))
       [ex_target ''ma'' ''na'' ConditionTrue 0 [], ex_target ''mb'' ''nb'' ConditionFalse 0 [],
        ex_target ''mc'' ''nc'' ConditionFalse 900 []]
       (Spec_NodeStartupTimeout (ex_policy (Some (IntVal 1))))
     = ([ex_target ''ma'' ''na'' ConditionTrue 0 []], [ex_target ''mb'' ''nb'' ConditionFalse 0 []], [200])
   \<and> classify 1000 600 (Spec_UnhealthyConditions (ex_policy (Some (IntVal 1))))
        (ex_target ''mc'' ''nc'' ConditionFalse 900 []) = Pending 1200
   \<and> sint (Status_ExpectedMachines
             (fst (snd (reconcile (ex_reconciler [] [] [ex_ma, ex_mb, ex_mc] [] None) ex_cluster
                          (ex_policy (Some (IntVal 1))) ex_world)))
           - Status_CurrentHealthy
             (fst (snd (reconcile (ex_reconciler [] [] [ex_ma, ex_mb, ex_mc] [] None) ex_cluster
                          (ex_policy (Some (IntVal 1))) ex_world)))) = 2
   \<and> \<not> isAllowedRemediation
          (fst (snd (reconcile (ex_reconciler [] [] [ex_ma, ex_mb, ex_mc] [] None) ex_cluster
                       (ex_policy (Some (IntVal 1))) ex_world)))
   \<and> map Event_Reason
        (Events (snd (snd (reconcile (ex_reconciler [] [] [ex_ma, ex_mb, ex_mc] [] None) ex_cluster
                             (ex_policy (Some (IntVal 1))) ex_world))))
       = [EventRemediationRestricted]
   \<and> MachinePatches (snd (snd (reconcile (ex_reconciler [] [] [ex_ma, ex_mb, ex_mc] [] None) ex_cluster
                                  (ex_policy (Some (IntVal 1))) ex_world)))
       = [ex_ma, ex_mb]
   \<and> fst (reconcile (ex_reconciler [] [] [ex_ma, ex_mb, ex_mc] [] None) ex_cluster
             (ex_policy (Some (IntVal 1))) ex_world)
       = (\<lparr>Requeue = True, RequeueAfter = 0\<rparr>, None)
   \<and> map Event_Reason
        (Events (snd (snd (reconcile (ex_reconciler [] [] [ex_ma, ex_mb, ex_mc] [] None) ex_cluster
                             (ex_policy (Some (IntVal 2))) ex_world))))
       = [EventMachineMarkedUnhealthy]
   \<and> MachinePatches (snd (snd (reconcile (ex_reconciler [] [] [ex_ma, ex_mb, ex_mc] [] None) ex_cluster
                                  (ex_policy (Some (IntVal 2))) ex_world)))
       = [markUnhealthy ex_mb, ex_ma]"
proof -
  let ?r = "ex_reconciler [] [] [ex_ma, ex_mb, ex_mc] [] None"
  let ?m0 = "ex_policy (Some (IntVal 1))"
  let ?m2 = "ex_policy (Some (IntVal 2))"
  let ?ta = "ex_target ''ma'' ''na'' ConditionTrue 0 []"
  let ?tb = "ex_target ''mb'' ''nb'' ConditionFalse 0 []"
  let ?tc = "ex_target ''mc'' ''nc'' ConditionFalse 900 []"
  let ?X = "reconcile ?r ex_cluster ?m0 ex_world"
  let ?Y = "reconcile ?r ex_cluster ?m2 ex_world"
  have rt: "resolvedTargets ?r ex_cluster ?m0 = Some [?ta, ?tb, ?tc]"
    by code_simp
  have rt2: "resolvedTargets ?r ex_cluster ?m2 = Some [?ta, ?tb, ?tc]"
    by code_simp
  have hc: "healthCheckTargets ?r (Spec_UnhealthyConditions ?m0) [?ta, ?tb, ?tc] (Spec_NodeStartupTimeout ?m0)
              = ([?ta], [?tb], [200])"
    by code_simp
  have hc2: "healthCheckTargets ?r (Spec_UnhealthyConditions ?m2) [?ta, ?tb, ?tc] (Spec_NodeStartupTimeout ?m2)
              = ([?ta], [?tb], [200])"
    by code_simp
  have X: "?X = ((fst (fst ?X), snd (fst ?X)), fst (snd ?X), snd (snd ?X))"
    by simp
  have Y: "?Y = ((fst (fst ?Y), snd (fst ?Y)), fst (snd ?Y), snd (snd ?Y))"
    by simp
  have len: "length [?ta, ?tb, ?tc] < 2 ^ 31"
    by simp
  have mem: "?tc \<in> set [?ta, ?tb, ?tc]"
    by simp
  have now: "Reconciler_Now ?r = 1000" and tmo: "Spec_NodeStartupTimeout ?m0 = 600"
    and tmo2: "Spec_NodeStartupTimeout ?m2 = 600"
    and rules: "Spec_UnhealthyConditions ?m2 = Spec_UnhealthyConditions ?m0"
    by (simp_all add: ex_reconciler_def ex_policy_def)
  have pend: "classify 1000 600 (Spec_UnhealthyConditions ?m0) ?tc = Pending 1200"
    by code_simp
  then have pend': "classify (Reconciler_Now ?r) (Spec_NodeStartupTimeout ?m0) (Spec_UnhealthyConditions ?m0) ?tc
      = Pending 1200"
    by (simp only: now tmo)
  from pend have pend2: "classify (Reconciler_Now ?r) (Spec_NodeStartupTimeout ?m2) (Spec_UnhealthyConditions ?m2) ?tc
      = Pending 1200"
    by (simp only: now tmo2 rules)
  have mx: "Spec_MaxUnhealthy ?m0 = Some (IntVal 1)" and mx2: "Spec_MaxUnhealthy ?m2 = Some (IntVal 2)"
    by (simp_all add: ex_policy_def)
  have gv: "GetValueFromIntOrPercent (Some (IntVal 1)) (int (length [?ta, ?tb, ?tc])) False = Inr 1"
    and gv2: "GetValueFromIntOrPercent (Some (IntVal 2)) (int (length [?ta, ?tb, ?tc])) False = Inr 2"
    by (simp_all add: GetValueFromIntOrPercent_def getIntOrPercentValue_def)
  have below: "(1::int) < int (length [?tb]) + int (length [200::int])"
    and within: "int (length [?tb]) + int (length [200::int]) \<le> (2::int)"
    by simp_all
  have ok: "list_all (patchSucceeds (Reconciler_Client ?r)) ([?ta] @ [?tb])"
    and oku: "list_all (patchSucceeds (Reconciler_Client ?r)) [?tb]"
    and okh: "takeWhile (patchSucceeds (Reconciler_Client ?r)) [?ta] = [?ta]"
    by code_simp+
  have tw: "takeWhile (patchSucceeds (Reconciler_Client ?r)) ([?ta] @ [?tb]) = [?ta] @ [?tb]"
    using ok by (rule takeWhile_all)
  have twu: "takeWhile (patchSucceeds (Reconciler_Client ?r)) [?tb] = [?tb]"
    using oku by (rule takeWhile_all)
  have ta: "Target_Machine ?ta = ex_ma" and tb: "Target_Machine ?tb = ex_mb"
    by code_simp+
  have re: "Event_Reason (restrictedEvent m n) = EventRemediationRestricted" for m :: "labels MachineHealthCheck" and n
    by (simp add: restrictedEvent_def)
  have me: "Event_Reason (markedEvent t) = EventMachineMarkedUnhealthy" for t
    by (simp add: markedEvent_def)
  have w0: "Events ex_world = []" "MachinePatches ex_world = []"
    by (simp_all add: ex_world_def)
  note p = pending_counts_toward_unhealthy [OF rt hc X len mem pend']
  note q = pending_counts_toward_unhealthy [OF rt2 hc2 Y len mem pend2]
  from p have count: "sint (Status_ExpectedMachines (fst (snd ?X)) - Status_CurrentHealthy (fst (snd ?X))) = 2"
    by simp
  from p [THEN conjunct2, THEN conjunct2, THEN conjunct2, THEN conjunct1, rule_format, OF mx gv]
  have deny: "\<not> isAllowedRemediation (fst (snd ?X))"
    by simp
  note d = p [THEN conjunct2, THEN conjunct2, THEN conjunct2, THEN conjunct2, THEN conjunct1,
      rule_format, OF mx gv below]
  from d have "Events (snd (snd ?X)) = Events ex_world @ [restrictedEvent (fst (snd ?X)) (length [?ta, ?tb, ?tc])]"
    by (rule conjunct1)
  then have ev: "map Event_Reason (Events (snd (snd ?X))) = [EventRemediationRestricted]"
    by (simp only: w0 append_Nil list.map re)
  from d have "MachinePatches (snd (snd ?X)) = MachinePatches ex_world
      @ map Target_Machine (takeWhile (patchSucceeds (Reconciler_Client ?r)) ([?ta] @ [?tb]))"
    by blast
  then have mp: "MachinePatches (snd (snd ?X)) = [ex_ma, ex_mb]"
    by (simp only: tw w0 append_Nil) (simp only: append.simps list.map ta tb)
  from d ok have "snd (fst ?X) = None \<and> fst (fst ?X) = \<lparr>Requeue = True, RequeueAfter = 0\<rparr>"
    by blast
  then have result: "fst ?X = (\<lparr>Requeue = True, RequeueAfter = 0\<rparr>, None)"
    by (simp add: prod_eq_iff)
  note a = q [THEN conjunct2, THEN conjunct2, THEN conjunct2, THEN conjunct2, THEN conjunct2,
      rule_format, OF mx2 gv2 within]
  from a have "Events (snd (snd ?Y)) = Events ex_world
      @ map markedEvent (takeWhile (patchSucceeds (Reconciler_Client ?r)) [?tb])"
    by (rule conjunct1)
  then have ev2: "map Event_Reason (Events (snd (snd ?Y))) = [EventMachineMarkedUnhealthy]"
    by (simp only: twu w0 append_Nil list.map me)
  from a have "MachinePatches (snd (snd ?Y)) = MachinePatches ex_world
      @ map (\<lambda>t. markUnhealthy (Target_Machine t)) (takeWhile (patchSucceeds (Reconciler_Client ?r)) [?tb])
      @ (if list_all (patchSucceeds (Reconciler_Client ?r)) [?tb]
         then map Target_Machine (takeWhile (patchSucceeds (Reconciler_Client ?r)) [?ta]) else [])"
    by (rule conjunct2)
  then have mp2: "MachinePatches (snd (snd ?Y)) = [markUnhealthy ex_mb, ex_ma]"
    by (simp only: twu okh oku if_True w0 append_Nil) (simp only: append.simps list.map ta tb)
  show ?thesis
    by (rule conjI [OF rt conjI [OF hc conjI [OF pend conjI [OF count conjI [OF deny
          conjI [OF ev conjI [OF mp conjI [OF result conjI [OF ev2 mp2]]]]]]]]])
qed

subsection \<open>Requests from notifications\<close>

text \<open>
  C8, as the source has it. For a notification about a Machine whose list of policies
  succeeds, the requests are exactly the keys of the policy objects in the Machine's
  namespace that carry the cluster label with the Machine's cluster name and whose selector
  matches the Machine's labels, in the order of the store. When the list fails, the
  mapping logs the failure and produces no request. In both cases every request produced
  is the key of such a policy.
\<close>

theorem machineToMachineHealthCheck_requests:
  fixes r :: "'sel MachineHealthCheckReconciler"
  shows "(Client_ListMHCErr (Reconciler_Client r) = None
          \<longrightarrow> machineToMachineHealthCheck r (MachineObject m)
               = (map ObjectKey_MHC
                    (filter (\<lambda>mhc. MHC_Namespace mhc = Machine_Namespace m
                               \<and> map_of (MHC_Labels mhc) ClusterLabelName = Some (Machine_Spec_ClusterName m)
                               \<and> hasMatchingLabels r (Spec_Selector mhc) (Machine_Labels m))
                       (Client_MachineHealthChecks (Reconciler_Client r))), []))
       \<and> (Client_ListMHCErr (Reconciler_Client r) \<noteq> None
          \<longrightarrow> machineToMachineHealthCheck r (MachineObject m) = ([], [''Unable to list MachineHealthChecks'']))
       \<and> (\<forall>key \<in> set (fst (machineToMachineHealthCheck r (MachineObject m))).
             \<exists>mhc \<in> set (Client_MachineHealthChecks (Reconciler_Client r)).
               key = ObjectKey_MHC mhc
               \<and> MHC_Namespace mhc = Machine_Namespace m
               \<and> map_of (MHC_Labels mhc) ClusterLabelName = Some (Machine_Spec_ClusterName m)
               \<and> hasMatchingLabels r (Spec_Selector mhc) (Machine_Labels m))"
proof -
  let ?P = "\<lambda>mhc. MHC_Namespace mhc = Machine_Namespace m
                 \<and> map_of (MHC_Labels mhc) ClusterLabelName = Some (Machine_Spec_ClusterName m)
                 \<and> hasMatchingLabels r (Spec_Selector mhc) (Machine_Labels m)"
  have ok: "machineToMachineHealthCheck r (MachineObject m)
          = (map ObjectKey_MHC (filter ?P (Client_MachineHealthChecks (Reconciler_Client r))), [])"
    if "Client_ListMHCErr (Reconciler_Client r) = None"
    using that
    by (simp add: machineToMachineHealthCheck_def Client_List_MHC_def)
  have bad: "machineToMachineHealthCheck r (MachineObject m) = ([], [''Unable to list MachineHealthChecks''])"
    if "Client_ListMHCErr (Reconciler_Client r) \<noteq> None"
    using that by (auto simp: machineToMachineHealthCheck_def Client_List_MHC_def)
  have sound: "\<exists>mhc \<in> set (Client_MachineHealthChecks (Reconciler_Client r)). key = ObjectKey_MHC mhc \<and> ?P mhc"
    if "key \<in> set (fst (machineToMachineHealthCheck r (MachineObject m)))" for key
  proof (cases "Client_ListMHCErr (Reconciler_Client r)")
    case None
    with that ok show ?thesis by auto
  next
    case (Some e)
    with that bad show ?thesis by simp
  qed
  show ?thesis
    apply (rule conjI)
     apply (rule impI)
     apply (erule ok)
    apply (rule conjI)
     apply (rule impI)
     apply (erule bad)
    apply (rule ballI)
    apply (erule sound)
    done
qed

theorem machineToMachineHealthCheck_requests_witness:
  "machineToMachineHealthCheck
      (ex_reconciler [ex_policy_infra, ex_policy (Some (IntVal 1)), ex_policy_elsewhere] [ex_cluster] [ex_ma] [] None)
      (MachineObject ex_ma)
     = ([(''default'', ''mhc1'')], [])
   \<and> machineToMachineHealthCheck
      (ex_reconciler [ex_policy_infra, ex_policy (Some (IntVal 1)), ex_policy_elsewhere] [ex_cluster] [ex_ma] []
         (Some (Failure ''unavailable'')))
      (MachineObject ex_ma)
     = ([], [''Unable to list MachineHealthChecks''])"
proof -
  let ?ps = "[ex_policy_infra, ex_policy (Some (IntVal 1)), ex_policy_elsewhere]"
  let ?r1 = "ex_reconciler ?ps [ex_cluster] [ex_ma] [] None"
  let ?r2 = "ex_reconciler ?ps [ex_cluster] [ex_ma] [] (Some (Failure ''unavailable''))"
  have a: "Client_ListMHCErr (Reconciler_Client ?r1) = None"
    by (simp add: ex_reconciler_def)
  have b: "Client_ListMHCErr (Reconciler_Client ?r2) \<noteq> None"
    by (simp add: ex_reconciler_def)
  have f: "map ObjectKey_MHC
             (filter (\<lambda>mhc. MHC_Namespace mhc = Machine_Namespace ex_ma
                        \<and> map_of (MHC_Labels mhc) ClusterLabelName = Some (Machine_Spec_ClusterName ex_ma)
                        \<and> hasMatchingLabels ?r1 (Spec_Selector mhc) (Machine_Labels ex_ma))
                (Client_MachineHealthChecks (Reconciler_Client ?r1)))
           = [(''default'', ''mhc1'')]"
    by code_simp
  from machineToMachineHealthCheck_requests [where r = ?r1 and m = ex_ma, THEN conjunct1, rule_format, OF a]
    machineToMachineHealthCheck_requests [where r = ?r2 and m = ex_ma, THEN conjunct2, THEN conjunct1, rule_format, OF b]
  show ?thesis
    unfolding f by (rule conjI)
qed

text \<open>
  C8 as the spec states it has the matching policies' requests produced for every
  notification. With a matching policy in the store and a failing list, no request is
  produced.
\<close>

theorem machineToMachineHealthCheck_list_failure_counterexample:
  "ex_policy (Some (IntVal 1))
     \<in> set (Client_MachineHealthChecks (Reconciler_Client
         (ex_reconciler [ex_policy (Some (IntVal 1))] [ex_cluster] [ex_ma] [] (Some (Failure ''unavailable'')))))
   \<and> MHC_Namespace (ex_policy (Some (IntVal 1))) = Machine_Namespace ex_ma
   \<and> map_of (MHC_Labels (ex_policy (Some (IntVal 1)))) ClusterLabelName = Some (Machine_Spec_ClusterName ex_ma)
   \<and> hasMatchingLabels (ex_reconciler [ex_policy (Some (IntVal 1))] [ex_cluster] [ex_ma] [] (Some (Failure ''unavailable'')))
        (Spec_Selector (ex_policy (Some (IntVal 1)))) (Machine_Labels ex_ma)
   \<and> fst (machineToMachineHealthCheck
        (ex_reconciler [ex_policy (Some (IntVal 1))] [ex_cluster] [ex_ma] [] (Some (Failure ''unavailable'')))
        (MachineObject ex_ma)) = []"
  by code_simp

lemma owners_filter:
  "filter (\<lambda>x. nodeName \<in> set (fst (indexMachineByNodeName (MachineObject x)))
              \<and> Machine_Status_NodeRef x = Some nodeName) xs
     = filter (\<lambda>machine. Machine_Status_NodeRef machine = Some nodeName) xs"
  by (rule filter_cong) (auto simp: indexMachineByNodeName_def)

lemma getMachineFromNode_eq:
  assumes "Client_ListMachineErr (Reconciler_Client r) = None"
  shows "getMachineFromNode r nodeName =
     (let items = filter (\<lambda>machine. Machine_Status_NodeRef machine = Some nodeName)
                    (Client_Machines (Reconciler_Client r))
      in if length items \<noteq> 1
         then Inl (Errorf ''expecting one machine for node %v, got %v'' (nodeName # machineNames items))
         else Inr (hd items))"
  using assms
  by (simp add: getMachineFromNode_def Client_List_Machines_ByField_def owners_filter Let_def)

text \<open>
  C9. For a notification about a Node, the owning Machines are those in the store whose
  node reference carries the Node's name, whether or not the list by field is served from
  an index. When there is none or more than one, or when the list fails, the mapping logs
  the failure and produces no request; the mapping returns requests and log lines only,
  never an error. When there is exactly one, the result is that of the Machine mapping on
  that Machine.
\<close>

theorem nodeToMachineHealthCheck_requests:
  fixes r :: "'sel MachineHealthCheckReconciler"
  assumes "owners = filter (\<lambda>machine. Machine_Status_NodeRef machine = Some (Node_Name node))
                      (Client_Machines (Reconciler_Client r))"
  shows "(Client_ListMachineErr (Reconciler_Client r) = None \<and> length owners \<noteq> 1
          \<longrightarrow> nodeToMachineHealthCheck r (NodeObject node) = ([], [''Unable to retrieve machine from node'']))
       \<and> (Client_ListMachineErr (Reconciler_Client r) = None \<and> owners = [machine]
          \<longrightarrow> getMachineFromNode r (Node_Name node) = Inr machine
             \<and> nodeToMachineHealthCheck r (NodeObject node)
                 = machineToMachineHealthCheck r (MachineObject machine))
       \<and> (Client_ListMachineErr (Reconciler_Client r) \<noteq> None
          \<longrightarrow> nodeToMachineHealthCheck r (NodeObject node) = ([], [''Unable to retrieve machine from node'']))"
proof -
  have none: "nodeToMachineHealthCheck r (NodeObject node) = ([], [''Unable to retrieve machine from node''])"
    if "Client_ListMachineErr (Reconciler_Client r) = None \<and> length owners \<noteq> 1"
    using that
    by (simp add: nodeToMachineHealthCheck_def getMachineFromNode_eq Let_def assms [symmetric])
  have one: "getMachineFromNode r (Node_Name node) = Inr machine
             \<and> nodeToMachineHealthCheck r (NodeObject node)
                 = machineToMachineHealthCheck r (MachineObject machine)"
    if "Client_ListMachineErr (Reconciler_Client r) = None \<and> owners = [machine]"
    using that
    by (simp add: nodeToMachineHealthCheck_def getMachineFromNode_eq Let_def assms [symmetric])
  have bad: "nodeToMachineHealthCheck r (NodeObject node) = ([], [''Unable to retrieve machine from node''])"
    if "Client_ListMachineErr (Reconciler_Client r) \<noteq> None"
    using that
    by (auto simp: nodeToMachineHealthCheck_def getMachineFromNode_def Client_List_Machines_ByField_def)
  show ?thesis
    apply (rule conjI)
     apply (rule impI)
     apply (erule none)
    apply (rule conjI)
     apply (rule impI)
     apply (erule one)
    apply (rule impI)
    apply (erule bad)
    done
qed

theorem nodeToMachineHealthCheck_requests_witness:
  "nodeToMachineHealthCheck
      (ex_reconciler [ex_policy (Some (IntVal 1))] [ex_cluster] [ex_ma, ex_mb] [] None)
      (NodeObject (ex_node ''nc'' ConditionFalse 900))
     = ([], [''Unable to retrieve machine from node''])
   \<and> nodeToMachineHealthCheck
      (ex_reconciler [ex_policy (Some (IntVal 1))] [ex_cluster] [ex_ma, ex_ma_twin, ex_mb] [] None)
      (NodeObject (ex_node ''na'' ConditionTrue 0))
     = ([], [''Unable to retrieve machine from node''])
   \<and> nodeToMachineHealthCheck
      (ex_reconciler [ex_policy (Some (IntVal 1))] [ex_cluster] [ex_ma, ex_mb] [] None)
      (NodeObject (ex_node ''na'' ConditionTrue 0))
     = machineToMachineHealthCheck
         (ex_reconciler [ex_policy (Some (IntVal 1))] [ex_cluster] [ex_ma, ex_mb] [] None) (MachineObject ex_ma)
   \<and> machineToMachineHealthCheck
         (ex_reconciler [ex_policy (Some (IntVal 1))] [ex_cluster] [ex_ma, ex_mb] [] None) (MachineObject ex_ma)
     = ([(''default'', ''mhc1'')], [])
   \<and> nodeToMachineHealthCheck
      ((ex_reconciler [ex_policy (Some (IntVal 1))] [ex_cluster] [ex_ma, ex_mb] [] None)
         \<lparr>Reconciler_Client :=
            (Reconciler_Client (ex_reconciler [ex_policy (Some (IntVal 1))] [ex_cluster] [ex_ma, ex_mb] [] None))
              \<lparr>Client_ListMachineErr := Some (Failure ''unavailable'')\<rparr>\<rparr>)
      (NodeObject (ex_node ''na'' ConditionTrue 0))
     = ([], [''Unable to retrieve machine from node''])"
proof -
  let ?ps = "[ex_policy (Some (IntVal 1))]"
  let ?r = "ex_reconciler ?ps [ex_cluster] [ex_ma, ex_mb] [] None"
  let ?r2 = "ex_reconciler ?ps [ex_cluster] [ex_ma, ex_ma_twin, ex_mb] [] None"
  let ?r3 = "?r\<lparr>Reconciler_Client := (Reconciler_Client ?r)\<lparr>Client_ListMachineErr := Some (Failure ''unavailable'')\<rparr>\<rparr>"
  let ?na = "ex_node ''na'' ConditionTrue 0"
  let ?nc = "ex_node ''nc'' ConditionFalse 900"
  have ok: "Client_ListMachineErr (Reconciler_Client ?r) = None"
    and ok2: "Client_ListMachineErr (Reconciler_Client ?r2) = None"
    and bad: "Client_ListMachineErr (Reconciler_Client ?r3) \<noteq> None"
    by (simp_all add: ex_reconciler_def)
  have zero: "length (filter (\<lambda>machine. Machine_Status_NodeRef machine = Some (Node_Name ?nc))
                 (Client_Machines (Reconciler_Client ?r))) \<noteq> 1"
    by code_simp
  have two: "length (filter (\<lambda>machine. Machine_Status_NodeRef machine = Some (Node_Name ?na))
                 (Client_Machines (Reconciler_Client ?r2))) \<noteq> 1"
    by code_simp
  have one: "filter (\<lambda>machine. Machine_Status_NodeRef machine = Some (Node_Name ?na))
                 (Client_Machines (Reconciler_Client ?r)) = [ex_ma]"
    by code_simp
  have m: "machineToMachineHealthCheck ?r (MachineObject ex_ma) = ([(''default'', ''mhc1'')], [])"
    by code_simp
  from nodeToMachineHealthCheck_requests [OF refl, where r = ?r and node = ?nc, THEN conjunct1, rule_format,
      OF conjI [OF ok zero]]
  have 1: "nodeToMachineHealthCheck ?r (NodeObject ?nc) = ([], [''Unable to retrieve machine from node''])" .
  from nodeToMachineHealthCheck_requests [OF refl, where r = ?r2 and node = ?na, THEN conjunct1, rule_format,
      OF conjI [OF ok2 two]]
  have 2: "nodeToMachineHealthCheck ?r2 (NodeObject ?na) = ([], [''Unable to retrieve machine from node''])" .
  from nodeToMachineHealthCheck_requests [OF refl, where r = ?r and node = ?na and machine = ex_ma,
      THEN conjunct2, THEN conjunct1, rule_format, OF conjI [OF ok one]]
  have 3: "nodeToMachineHealthCheck ?r (NodeObject ?na) = machineToMachineHealthCheck ?r (MachineObject ex_ma)"
    by (rule conjunct2)
  from nodeToMachineHealthCheck_requests [OF refl, where r = ?r3 and node = ?na,
      THEN conjunct2, THEN conjunct2, rule_format, OF bad]
  have 4: "nodeToMachineHealthCheck ?r3 (NodeObject ?na) = ([], [''Unable to retrieve machine from node''])" .
  from 1 2 3 m 4 show ?thesis
    by (intro conjI)
qed

end
